theory Spec2Isabelle
  imports Main "HOL-Library.Monad_Syntax"
begin

section \<open>Package errorsx: classified errors and chain-aware extraction\<close>

text \<open>
  \<^verbatim>\<open>type Errorx struct { code int; isInternal bool; message string }\<close>. A \<^verbatim>\<open>*Errorx\<close> is an
  \<^verbatim>\<open>Errorx option\<close>, \<^verbatim>\<open>None\<close> being the nil pointer. The three methods have pointer receivers
  and read a field, so on the nil pointer they panic: their result is \<^verbatim>\<open>None\<close> there.
\<close>

record Errorx =
  code :: int
  isInternal :: bool
  message :: string

definition Errorx_Error :: "Errorx option \<Rightarrow> string option" where
  "Errorx_Error e = (case e of None \<Rightarrow> None | Some x \<Rightarrow> Some (message x))"

definition Errorx_Internal :: "Errorx option \<Rightarrow> bool option" where
  "Errorx_Internal e = (case e of None \<Rightarrow> None | Some x \<Rightarrow> Some (isInternal x))"

definition Errorx_Code :: "Errorx option \<Rightarrow> int option" where
  "Errorx_Code e = (case e of None \<Rightarrow> None | Some x \<Rightarrow> Some (code x))"

definition errorsx_New :: "bool \<Rightarrow> int \<Rightarrow> string \<Rightarrow> Errorx option" where
  "errorsx_New isInternal' code' message' =
     Some \<lparr>code = code', isInternal = isInternal', message = message'\<rparr>"

text \<open>
  A Go \<^verbatim>\<open>error\<close> value, as far as the handler can tell errors apart: a \<^verbatim>\<open>*Errorx\<close> (the nil
  pointer too, which as an \<^verbatim>\<open>error\<close> is not nil), an error without causes (\<^verbatim>\<open>errors.New\<close>),
  an error with one cause (\<^verbatim>\<open>Unwrap() error\<close>, as \<^verbatim>\<open>fmt.Errorf\<close> with \<^verbatim>\<open>%w\<close> builds) and an
  error with several causes (\<^verbatim>\<open>Unwrap() []error\<close>, as \<^verbatim>\<open>errors.Join\<close> builds). A wrapper
  carries the text its own \<^verbatim>\<open>Error()\<close> returns. An error type with an \<^verbatim>\<open>As\<close> method of its own
  is not among them; this repository defines none.
\<close>

datatype error =
    Classified "Errorx option"
  | Opaque string
  | Wrap string error
  | Multi string "error list"

fun error_Error :: "error \<Rightarrow> string option" where
  "error_Error (Classified e) = Errorx_Error e"
| "error_Error (Opaque m) = Some m"
| "error_Error (Wrap m e) = Some m"
| "error_Error (Multi m es) = Some m"

text \<open>
  \<^verbatim>\<open>errors.As(err, &rErr)\<close> with a target of type \<^verbatim>\<open>*Errorx\<close>, as the standard library
  walks the error: the error itself is tried first, then its single cause, or each of its
  several causes in order, depth first. A \<^verbatim>\<open>*Errorx\<close> matches by its type, nil or not. The
  result is the pointer found, if one is.
\<close>

fun errors_As :: "error \<Rightarrow> Errorx option option"
  and errors_As_each :: "error list \<Rightarrow> Errorx option option" where
  "errors_As (Classified e) = Some e"
| "errors_As (Opaque m) = None"
| "errors_As (Wrap m e) = errors_As e"
| "errors_As (Multi m es) = errors_As_each es"
| "errors_As_each [] = None"
| "errors_As_each (e # es) =
     (case errors_As e of Some x \<Rightarrow> Some x | None \<Rightarrow> errors_As_each es)"

text \<open>
  \<^verbatim>\<open>As\<close> returns \<^verbatim>\<open>(rErr, ok)\<close>: \<^verbatim>\<open>rErr\<close> starts nil and is set when \<^verbatim>\<open>errors.As\<close> finds a
  \<^verbatim>\<open>*Errorx\<close>.
\<close>

definition As :: "error \<Rightarrow> Errorx option \<times> bool" where
  "As err = (case errors_As err of None \<Rightarrow> (None, False) | Some rErr \<Rightarrow> (rErr, True))"

text \<open>
  The wrap chain in the spec's words: every error reachable from \<^verbatim>\<open>err\<close> through its
  causes, the error itself first, causes in their order; and the first \<^verbatim>\<open>*Errorx\<close> in it.
\<close>

fun wrap_chain :: "error \<Rightarrow> error list" where
  "wrap_chain (Classified e) = [Classified e]"
| "wrap_chain (Opaque m) = [Opaque m]"
| "wrap_chain (Wrap m e) = Wrap m e # wrap_chain e"
| "wrap_chain (Multi m es) = Multi m es # concat (map wrap_chain es)"

fun classified_of :: "error \<Rightarrow> Errorx option list" where
  "classified_of (Classified e) = [e]"
| "classified_of _ = []"

definition first_of :: "'a list \<Rightarrow> 'a option" where
  "first_of xs = (case xs of [] \<Rightarrow> None | x # _ \<Rightarrow> Some x)"

definition first_classified :: "error \<Rightarrow> Errorx option option" where
  "first_classified err = first_of (concat (map classified_of (wrap_chain err)))"

section \<open>Package encoder: JSON and XML encoders\<close>

text \<open>
  The values the handler passes to \<^verbatim>\<open>Encode(src any)\<close>: a \<^verbatim>\<open>DefaultResponse\<close>, a string, and
  the use case's response of the type parameter \<^verbatim>\<open>Resp\<close>. A \<^verbatim>\<open>*Errorx\<close> is a value a caller
  could pass as well.
\<close>

record DefaultResponse =
  Message :: string

datatype 'resp any =
    AnyDefaultResponse DefaultResponse
  | AnyString string
  | AnyErrorx "Errorx option"
  | AnyResp 'resp

text \<open>
  An \<^verbatim>\<open>io.Writer\<close> as an encoder sees it: what one \<^verbatim>\<open>Write\<close> of some bytes returns
  (\<^verbatim>\<open>None\<close> for a nil error). What \<^verbatim>\<open>Encode\<close> does is the list of its \<^verbatim>\<open>Write\<close> calls on the
  sink, in order, and the error it returns.
\<close>

type_synonym sink = "string \<Rightarrow> error option"

type_synonym encoded = "string list \<times> error option"

datatype panic = NilPointerDereference

text \<open>
  UTF-8 as the standard library's \<^verbatim>\<open>utf8.DecodeRuneInString\<close> reads it. \<^verbatim>\<open>rune_size\<close> is the
  size it returns for a string that starts with a byte from \<^verbatim>\<open>0x80\<close>: 2, 3 or 4 for a
  well-formed sequence (first byte \<^verbatim>\<open>C2..DF\<close>, \<^verbatim>\<open>E0..EF\<close> or \<^verbatim>\<open>F0..F4\<close>, the second byte in the
  range the first one allows, the others \<^verbatim>\<open>80..BF\<close>), and 0 here where the library returns
  \<^verbatim>\<open>(RuneError, 1)\<close>. \<^verbatim>\<open>valid_utf8\<close> is \<^verbatim>\<open>utf8.ValidString\<close>.
\<close>

definition continuation :: "char \<Rightarrow> bool" where
  "continuation c = (0x80 \<le> (of_char c :: nat) \<and> (of_char c :: nat) \<le> 0xBF)"

definition second_ok :: "char \<Rightarrow> char \<Rightarrow> bool" where
  "second_ok b0 b1 =
     (if (of_char b0 :: nat) = 0xE0 then 0xA0 \<le> (of_char b1 :: nat) \<and> (of_char b1 :: nat) \<le> 0xBF
      else if (of_char b0 :: nat) = 0xED then 0x80 \<le> (of_char b1 :: nat) \<and> (of_char b1 :: nat) \<le> 0x9F
      else if (of_char b0 :: nat) = 0xF0 then 0x90 \<le> (of_char b1 :: nat) \<and> (of_char b1 :: nat) \<le> 0xBF
      else if (of_char b0 :: nat) = 0xF4 then 0x80 \<le> (of_char b1 :: nat) \<and> (of_char b1 :: nat) \<le> 0x8F
      else continuation b1)"

definition rune_size :: "string \<Rightarrow> nat" where
  "rune_size s =
     (case s of
        [] \<Rightarrow> 0
      | b0 # t \<Rightarrow>
          if 0xC2 \<le> (of_char b0 :: nat) \<and> (of_char b0 :: nat) \<le> 0xDF then
            (case t of
               b1 # _ \<Rightarrow> if continuation b1 then 2 else 0
             | _ \<Rightarrow> 0)
          else if 0xE0 \<le> (of_char b0 :: nat) \<and> (of_char b0 :: nat) \<le> 0xEF then
            (case t of
               b1 # b2 # _ \<Rightarrow> if second_ok b0 b1 \<and> continuation b2 then 3 else 0
             | _ \<Rightarrow> 0)
          else if 0xF0 \<le> (of_char b0 :: nat) \<and> (of_char b0 :: nat) \<le> 0xF4 then
            (case t of
               b1 # b2 # b3 # _ \<Rightarrow>
                 if second_ok b0 b1 \<and> continuation b2 \<and> continuation b3 then 4 else 0
             | _ \<Rightarrow> 0)
          else 0)"

fun valid_utf8 :: "string \<Rightarrow> bool" where
  "valid_utf8 [] = True"
| "valid_utf8 (b # bs) =
     (if (of_char b :: nat) < 0x80 then valid_utf8 bs
      else 0 < rune_size (b # bs) \<and> valid_utf8 (drop (rune_size (b # bs) - 1) bs))"

text \<open>
  The standard library's \<^verbatim>\<open>encoding/json\<close>, for the values above. A string is quoted as
  \<^verbatim>\<open>appendString\<close> does with HTML escaping on, which is the default of \<^verbatim>\<open>json.NewEncoder\<close>.
  \<^verbatim>\<open>json_escape\<close> is its treatment of one byte below \<^verbatim>\<open>0x80\<close>. From \<^verbatim>\<open>0x80\<close> on it decodes a
  rune: a byte that starts no well-formed sequence becomes \<^verbatim>\<open>\ufffd\<close>, U+2028 and U+2029
  become \<^verbatim>\<open>\u2028\<close> and \<^verbatim>\<open>\u2029\<close>, any other sequence is copied.
  A \<^verbatim>\<open>DefaultResponse\<close> has the one field tagged \<^verbatim>\<open>json:"message"\<close>; an \<^verbatim>\<open>*Errorx\<close> has no
  exported field and no marshalling method, so it is the empty object, or \<^verbatim>\<open>null\<close> for the
  nil pointer. How a response of type \<^verbatim>\<open>Resp\<close> marshals is the application's and is the
  parameter \<^verbatim>\<open>mr\<close>.
\<close>

definition hex :: "nat \<Rightarrow> char" where
  "hex n = ''0123456789abcdef'' ! (n mod 16)"

definition json_escape :: "char \<Rightarrow> string" where
  "json_escape b =
     (if b = CHR 0x5C \<or> b = CHR 0x22 then [CHR 0x5C, b]
      else if b = CHR 0x08 then [CHR 0x5C, CHR ''b'']
      else if b = CHR 0x0C then [CHR 0x5C, CHR ''f'']
      else if b = CHR 0x0A then [CHR 0x5C, CHR ''n'']
      else if b = CHR 0x0D then [CHR 0x5C, CHR ''r'']
      else if b = CHR 0x09 then [CHR 0x5C, CHR ''t'']
      else if (of_char b :: nat) < 0x20 \<or> b = CHR ''<'' \<or> b = CHR ''>'' \<or> b = CHR ''&''
        then [CHR 0x5C, CHR ''u'', CHR ''0'', CHR ''0'',
              hex ((of_char b :: nat) div 16), hex ((of_char b :: nat) mod 16)]
      else [b])"

fun escape_from :: "string \<Rightarrow> string" where
  "escape_from [] = []"
| "escape_from (b # bs) =
     (if (of_char b :: nat) < 0x80 then json_escape b @ escape_from bs
      else if rune_size (b # bs) = 0 then CHR 0x5C # ''ufffd'' @ escape_from bs
      else if take 3 (b # bs) = [CHR 0xE2, CHR 0x80, CHR 0xA8]
        then CHR 0x5C # ''u2028'' @ escape_from (drop 2 bs)
      else if take 3 (b # bs) = [CHR 0xE2, CHR 0x80, CHR 0xA9]
        then CHR 0x5C # ''u2029'' @ escape_from (drop 2 bs)
      else take (rune_size (b # bs)) (b # bs) @ escape_from (drop (rune_size (b # bs) - 1) bs))"

definition appendString :: "string \<Rightarrow> string" where
  "appendString src = [CHR 0x22] @ escape_from src @ [CHR 0x22]"

definition json_Marshal :: "('resp \<Rightarrow> error + string) \<Rightarrow> 'resp any \<Rightarrow> error + string" where
  \<open>json_Marshal mr v =
     (case v of
        AnyDefaultResponse d \<Rightarrow> Inr (''{"message":'' @ appendString (Message d) @ ''}'')
      | AnyString s \<Rightarrow> Inr (appendString s)
      | AnyErrorx e \<Rightarrow> (case e of None \<Rightarrow> Inr ''null'' | Some _ \<Rightarrow> Inr ''{}'')
      | AnyResp r \<Rightarrow> mr r)\<close>

text \<open>
  \<^verbatim>\<open>json.Encoder\<close>: \<^verbatim>\<open>NewEncoder(w)\<close> holds the sink; \<^verbatim>\<open>Encode\<close> marshals the value, returns the
  marshalling error without writing, and otherwise writes the text and a newline in one
  \<^verbatim>\<open>Write\<close> and returns that call's error.
\<close>

record json_Encoder =
  json_w :: sink

definition json_NewEncoder :: "sink \<Rightarrow> json_Encoder" where
  "json_NewEncoder w' = \<lparr>json_w = w'\<rparr>"

definition json_Encoder_Encode ::
  "('resp \<Rightarrow> error + string) \<Rightarrow> json_Encoder \<Rightarrow> 'resp any \<Rightarrow> encoded" where
  "json_Encoder_Encode mr enc v =
     (case json_Marshal mr v of
        Inl err \<Rightarrow> ([], Some err)
      | Inr b \<Rightarrow> ([b @ [CHR 0x0A]], json_w enc (b @ [CHR 0x0A])))"

text \<open>
  \<^verbatim>\<open>type jsonEncoder struct { encoder *json.Encoder }\<close>; \<^verbatim>\<open>None\<close> is the nil pointer. The
  package-level \<^verbatim>\<open>JsonEncoder\<close> is \<^verbatim>\<open>&jsonEncoder{}\<close>. \<^verbatim>\<open>Encode\<close> calls the inner encoder's
  method, whose first statement reads a field of its receiver.
\<close>

record jsonEncoder =
  json_encoder :: "json_Encoder option"

definition JsonEncoder_var :: jsonEncoder where
  "JsonEncoder_var = \<lparr>json_encoder = None\<rparr>"

definition jsonEncoder_New :: "jsonEncoder \<Rightarrow> sink \<Rightarrow> jsonEncoder" where
  "jsonEncoder_New d w' = \<lparr>json_encoder = Some (json_NewEncoder w')\<rparr>"

definition jsonEncoder_Encode ::
  "('resp \<Rightarrow> error + string) \<Rightarrow> jsonEncoder \<Rightarrow> 'resp any \<Rightarrow> panic + encoded" where
  "jsonEncoder_Encode mr d src =
     (case json_encoder d of
        None \<Rightarrow> Inl NilPointerDereference
      | Some enc \<Rightarrow> Inr (json_Encoder_Encode mr enc src))"

text \<open>
  \<^verbatim>\<open>type xmlEncoder struct { encoder *xml.Encoder }\<close>, likewise. What \<^verbatim>\<open>xml.Encoder.Encode\<close>
  writes for a value is the standard library's and is the parameter \<^verbatim>\<open>xe\<close>; it too starts
  by reading a field of its receiver.
\<close>

record xml_Encoder =
  xml_w :: sink

definition xml_NewEncoder :: "sink \<Rightarrow> xml_Encoder" where
  "xml_NewEncoder w' = \<lparr>xml_w = w'\<rparr>"

record xmlEncoder =
  xml_encoder :: "xml_Encoder option"

definition XmlEncoder_var :: xmlEncoder where
  "XmlEncoder_var = \<lparr>xml_encoder = None\<rparr>"

definition xmlEncoder_New :: "xmlEncoder \<Rightarrow> sink \<Rightarrow> xmlEncoder" where
  "xmlEncoder_New e w' = \<lparr>xml_encoder = Some (xml_NewEncoder w')\<rparr>"

definition xmlEncoder_Encode ::
  "(xml_Encoder \<Rightarrow> 'resp any \<Rightarrow> encoded) \<Rightarrow> xmlEncoder \<Rightarrow> 'resp any \<Rightarrow> panic + encoded" where
  "xmlEncoder_Encode xe e src =
     (case xml_encoder e of
        None \<Rightarrow> Inl NilPointerDereference
      | Some enc \<Rightarrow> Inr (xe enc src))"

text \<open>
  A value of the interface \<^verbatim>\<open>Encoder\<close> as the handler uses it, always as
  \<^verbatim>\<open>h.encoder.New(w).Encode(src)\<close>: the sink and the value give the writes and the error.
  \<^verbatim>\<open>JsonEncoder\<close> and \<^verbatim>\<open>XmlEncoder\<close> are the two package-level values seen this way.
\<close>

type_synonym 'resp Encoder = "sink \<Rightarrow> 'resp any \<Rightarrow> encoded"

definition JsonEncoder :: "('resp \<Rightarrow> error + string) \<Rightarrow> 'resp Encoder" where
  "JsonEncoder mr w' src = json_Encoder_Encode mr (json_NewEncoder w') src"

definition XmlEncoder :: "(xml_Encoder \<Rightarrow> 'resp any \<Rightarrow> encoded) \<Rightarrow> 'resp Encoder" where
  "XmlEncoder xe w' src = xe (xml_NewEncoder w') src"

section \<open>Package httpx: requests, options and the handler\<close>

text \<open>
  The constraint \<^verbatim>\<open>Request[Req]\<close>: the methods of \<^verbatim>\<open>*Req\<close>. \<^verbatim>\<open>Bind\<close> fills the request it
  is called on from the inbound request and returns an error; the model returns the request
  after the call and the error (\<^verbatim>\<open>None\<close> for nil).
\<close>

record ('hr, 'req) Request =
  Bind :: "'req \<Rightarrow> 'hr \<Rightarrow> 'req \<times> error option"
  Validate :: "'req \<Rightarrow> error option"
  String :: "'req \<Rightarrow> string"

datatype DefaultRequest = DefaultRequest

definition DefaultRequest_Bind :: "DefaultRequest \<Rightarrow> 'hr \<Rightarrow> DefaultRequest \<times> error option" where
  "DefaultRequest_Bind req r = (req, None)"

definition DefaultRequest_Validate :: "DefaultRequest \<Rightarrow> error option" where
  "DefaultRequest_Validate req = None"

type_synonym ('ctx, 'req, 'resp) UseCaseFunc = "'ctx \<Rightarrow> 'req \<Rightarrow> 'resp \<times> error option"

text \<open>
  A \<^verbatim>\<open>*slog.Logger\<close>: the one \<^verbatim>\<open>slogx.New()\<close> builds, or one the caller supplies.
\<close>

datatype 'l Logger = slogx_New | Supplied 'l

text \<open>
  \<^verbatim>\<open>handlerOptions\<close>; \<^verbatim>\<open>None\<close> is the nil interface value and the nil pointer.
\<close>

record ('resp, 'l) handlerOptions =
  successCode :: int
  encoder :: "'resp Encoder option"
  logger :: "'l Logger option"

type_synonym ('resp, 'l) Option = "('resp, 'l) handlerOptions \<Rightarrow> ('resp, 'l) handlerOptions"

definition WithSuccessCode :: "int \<Rightarrow> ('resp, 'l) Option" where
  "WithSuccessCode code' = (\<lambda>h. h\<lparr>successCode := code'\<rparr>)"

definition WithEncoder :: "'resp Encoder option \<Rightarrow> ('resp, 'l) Option" where
  "WithEncoder encoder' = (\<lambda>h. h\<lparr>encoder := encoder'\<rparr>)"

definition WithLogger :: "'l Logger option \<Rightarrow> ('resp, 'l) Option" where
  "WithLogger logger' = (\<lambda>h. h\<lparr>logger := logger'\<rparr>)"

definition http_StatusOK :: int where
  "http_StatusOK = 200"

definition http_StatusInternalServerError :: int where
  "http_StatusInternalServerError = 500"

text \<open>\<^verbatim>\<open>http.StatusText(http.StatusInternalServerError)\<close>.\<close>

definition StatusText_InternalServerError :: string where
  "StatusText_InternalServerError = ''Internal Server Error''"

text \<open>
  \<^verbatim>\<open>applyOptions\<close>: the zero value of \<^verbatim>\<open>handlerOptions\<close>, each option applied in order, then
  the three defaults. The default encoder is \<^verbatim>\<open>encoder.JsonEncoder\<close>.
\<close>

definition applyOptions ::
  "('resp \<Rightarrow> error + string) \<Rightarrow> ('resp, 'l) Option list \<Rightarrow> ('resp, 'l) handlerOptions" where
  "applyOptions mr options =
     (let h = fold (\<lambda>option h. option h) options
                \<lparr>successCode = 0, encoder = None, logger = None\<rparr>;
          h = (if successCode h \<le> 0 then h\<lparr>successCode := http_StatusOK\<rparr> else h);
          h = (case encoder h of None \<Rightarrow> h\<lparr>encoder := Some (JsonEncoder mr)\<rparr> | Some _ \<Rightarrow> h);
          h = (case logger h of None \<Rightarrow> h\<lparr>logger := Some slogx_New\<rparr> | Some _ \<Rightarrow> h)
      in h)"

text \<open>
  The calls a handler makes on its \<^verbatim>\<open>http.ResponseWriter\<close>, in order, and the records it
  sends to its logger: level, group, message and the value attached.
\<close>

datatype call =
    Header_Del string
  | Header_Set string string
  | WriteHeader int
  | Write string

datatype level = LevelInfo | LevelError

datatype ('req, 'resp) attached = AnError error | ARequest 'req | AResponse 'resp

datatype ('req, 'resp) log_record = Record level string string "('req, 'resp) attached"

record ('req, 'resp) exchange =
  calls :: "call list"
  logs :: "('req, 'resp) log_record list"

text \<open>
  \<^verbatim>\<open>http.Error(w, error, code)\<close> of the standard library: three header changes, the status,
  and the text with a newline (\<^verbatim>\<open>fmt.Fprintln\<close>).
\<close>

definition http_Error_calls :: "string \<Rightarrow> int \<Rightarrow> call list" where
  "http_Error_calls text' code' =
     [Header_Del ''Content-Length'',
      Header_Set ''Content-Type'' ''text/plain; charset=utf-8'',
      Header_Set ''X-Content-Type-Options'' ''nosniff'',
      WriteHeader code',
      Write (text' @ [CHR 0x0A])]"

definition http_Error :: "string \<Rightarrow> int \<Rightarrow> ('req, 'resp) exchange \<Rightarrow> ('req, 'resp) exchange" where
  "http_Error text' code' s = s\<lparr>calls := calls s @ http_Error_calls text' code'\<rparr>"

definition w_WriteHeader :: "int \<Rightarrow> ('req, 'resp) exchange \<Rightarrow> ('req, 'resp) exchange" where
  "w_WriteHeader code' s = s\<lparr>calls := calls s @ [WriteHeader code']\<rparr>"

text \<open>
  The uses of the two nil-able fields in the handler. A call through a nil logger or a nil
  encoder panics (\<^verbatim>\<open>None\<close>); otherwise the record is sent, or the encoder bound to \<^verbatim>\<open>w\<close>
  writes and returns its error.
\<close>

definition logger_log ::
  "('resp, 'l) handlerOptions \<Rightarrow> level \<Rightarrow> string \<Rightarrow> string \<Rightarrow> ('req, 'resp) attached \<Rightarrow>
   ('req, 'resp) exchange \<Rightarrow> ('req, 'resp) exchange option" where
  "logger_log h lv id' msg' v s =
     (case logger h of
        None \<Rightarrow> None
      | Some l \<Rightarrow> Some (s\<lparr>logs := logs s @ [Record lv id' msg' v]\<rparr>))"

definition encoder_New_Encode ::
  "('resp, 'l) handlerOptions \<Rightarrow> sink \<Rightarrow> 'resp any \<Rightarrow>
   ('req, 'resp) exchange \<Rightarrow> (error option \<times> ('req, 'resp) exchange) option" where
  "encoder_New_Encode h w' src s =
     (case encoder h of
        None \<Rightarrow> None
      | Some enc \<Rightarrow>
          (case enc w' src of (ws, err) \<Rightarrow> Some (err, s\<lparr>calls := calls s @ map Write ws\<rparr>)))"

text \<open>
  The guard \<^verbatim>\<open>errx, ok := errorsx.As(err); ok && !errx.Internal()\<close>. \<^verbatim>\<open>Internal\<close> is called
  only when \<^verbatim>\<open>ok\<close> holds, and panics on a nil \<^verbatim>\<open>errx\<close> (\<^verbatim>\<open>None\<close>).
\<close>

definition is_external :: "Errorx option \<times> bool \<Rightarrow> bool option" where
  "is_external p =
     (case p of (errx, ok) \<Rightarrow>
        if ok then (case Errorx_Internal errx of None \<Rightarrow> None | Some i \<Rightarrow> Some (\<not> i))
        else Some False)"

text \<open>
  The function \<^verbatim>\<open>Handle\<close> returns, for options \<^verbatim>\<open>h\<close> already applied. \<^verbatim>\<open>id'\<close> is the fresh
  UUID, \<^verbatim>\<open>w'\<close> what a \<^verbatim>\<open>Write\<close> on the response writer returns, \<^verbatim>\<open>zero\<close> the zero value of
  \<^verbatim>\<open>Req\<close> and \<^verbatim>\<open>Context\<close> the request's \<^verbatim>\<open>Context()\<close>. The result is the exchange when the
  function returns, and \<^verbatim>\<open>None\<close> when it panics.
\<close>

definition handlerFunc ::
  "('hr, 'req) Request \<Rightarrow> 'req \<Rightarrow> ('hr \<Rightarrow> 'ctx) \<Rightarrow> ('ctx, 'req, 'resp) UseCaseFunc \<Rightarrow>
   ('resp, 'l) handlerOptions \<Rightarrow> string \<Rightarrow> sink \<Rightarrow> 'hr \<Rightarrow> ('req, 'resp) exchange option" where
  "handlerFunc R zero Context useCase h id' w' r =
     (let s = \<lparr>calls = [], logs = []\<rparr> in
      case Bind R zero r of (req, err) \<Rightarrow>
      (case err of
         Some err \<Rightarrow>
           (case As err of (errx, ok) \<Rightarrow> do {
              external \<leftarrow> is_external (errx, ok);
              if external then do {
                s \<leftarrow> logger_log h LevelError id' ''failed to bind request'' (AnError (Classified errx)) s;
                c \<leftarrow> Errorx_Code errx;
                let s = w_WriteHeader c s;
                m \<leftarrow> error_Error err;
                (err, s) \<leftarrow> encoder_New_Encode h w' (AnyDefaultResponse \<lparr>Message = m\<rparr>) s;
                (case err of
                   Some err \<Rightarrow> do {
                     s \<leftarrow> logger_log h LevelError id' ''failed to write error response'' (AnError err) s;
                     Some (http_Error StatusText_InternalServerError http_StatusInternalServerError s)
                   }
                 | None \<Rightarrow> Some s)
              } else do {
                let s = w_WriteHeader http_StatusInternalServerError s;
                (err, s) \<leftarrow> encoder_New_Encode h w'
                              (AnyDefaultResponse \<lparr>Message = StatusText_InternalServerError\<rparr>) s;
                (case err of
                   Some err \<Rightarrow> do {
                     s \<leftarrow> logger_log h LevelError id' ''failed to write error response'' (AnError err) s;
                     Some (http_Error StatusText_InternalServerError http_StatusInternalServerError s)
                   }
                 | None \<Rightarrow> Some s)
              }
            })
       | None \<Rightarrow> do {
           s \<leftarrow> logger_log h LevelInfo id' ''request'' (ARequest req) s;
           (case Validate R req of
              Some err \<Rightarrow>
                (case As err of (errx, ok) \<Rightarrow> do {
                   external \<leftarrow> is_external (errx, ok);
                   if external then do {
                     s \<leftarrow> logger_log h LevelError id' ''failed to validate request''
                            (AnError (Classified errx)) s;
                     c \<leftarrow> Errorx_Code errx;
                     let s = w_WriteHeader c s;
                     m \<leftarrow> Errorx_Error errx;
                     (err, s) \<leftarrow> encoder_New_Encode h w' (AnyString m) s;
                     (case err of
                        Some err \<Rightarrow> do {
                          s \<leftarrow> logger_log h LevelError id' ''failed to write error response''
                                 (AnError err) s;
                          Some (http_Error StatusText_InternalServerError
                                  http_StatusInternalServerError s)
                        }
                      | None \<Rightarrow> Some s)
                   } else
                     Some (http_Error StatusText_InternalServerError
                             http_StatusInternalServerError s)
                 })
            | None \<Rightarrow>
                (case useCase (Context r) req of (response, err) \<Rightarrow>
                 (case err of
                    Some err \<Rightarrow>
                      (case As err of (errx, ok) \<Rightarrow> do {
                         external \<leftarrow> is_external (errx, ok);
                         if external then do {
                           c \<leftarrow> Errorx_Code errx;
                           let s = w_WriteHeader c s;
                           m \<leftarrow> Errorx_Error errx;
                           (err, s) \<leftarrow> encoder_New_Encode h w' (AnyString m) s;
                           (case err of
                              Some err \<Rightarrow>
                                Some (http_Error StatusText_InternalServerError
                                        http_StatusInternalServerError s)
                            | None \<Rightarrow> Some s)
                         } else
                           Some (http_Error StatusText_InternalServerError
                                   http_StatusInternalServerError s)
                       })
                  | None \<Rightarrow> do {
                      s \<leftarrow> logger_log h LevelInfo id' ''response'' (AResponse response) s;
                      let s = w_WriteHeader (successCode h) s;
                      (err, s) \<leftarrow> encoder_New_Encode h w' (AnyResp response) s;
                      (case err of
                         Some err \<Rightarrow>
                           (case As err of (errx, ok) \<Rightarrow> do {
                              external \<leftarrow> is_external (errx, ok);
                              if external then do {
                                m \<leftarrow> Errorx_Error errx;
                                c \<leftarrow> Errorx_Code errx;
                                Some (http_Error m c s)
                              } else
                                Some (http_Error StatusText_InternalServerError
                                        http_StatusInternalServerError s)
                            })
                       | None \<Rightarrow> Some s)
                    })))
         }))"

definition Handle ::
  "('resp \<Rightarrow> error + string) \<Rightarrow> ('hr, 'req) Request \<Rightarrow> 'req \<Rightarrow> ('hr \<Rightarrow> 'ctx) \<Rightarrow>
   ('ctx, 'req, 'resp) UseCaseFunc \<Rightarrow> ('resp, 'l) Option list \<Rightarrow>
   string \<Rightarrow> sink \<Rightarrow> 'hr \<Rightarrow> ('req, 'resp) exchange option" where
  "Handle mr R zero Context useCase options =
     (let h = applyOptions mr options in handlerFunc R zero Context useCase h)"

text \<open>
  What the calls amount to. \<^verbatim>\<open>status_writes\<close> lists the codes of the \<^verbatim>\<open>WriteHeader\<close> calls and
  \<^verbatim>\<open>body_of\<close> joins the bytes of the \<^verbatim>\<open>Write\<close> calls. \<^verbatim>\<open>status_sent\<close> is the status line a
  \<^verbatim>\<open>net/http\<close> response writer sends: that of the first \<^verbatim>\<open>WriteHeader\<close>, later ones being
  dropped as superfluous, or 200 when a \<^verbatim>\<open>Write\<close> comes first or the handler returns
  without either.
\<close>

fun status_writes :: "call list \<Rightarrow> int list" where
  "status_writes [] = []"
| "status_writes (WriteHeader c # cs) = c # status_writes cs"
| "status_writes (_ # cs) = status_writes cs"

fun body_of :: "call list \<Rightarrow> string" where
  "body_of [] = []"
| "body_of (Write b # cs) = b @ body_of cs"
| "body_of (_ # cs) = body_of cs"

fun status_sent :: "call list \<Rightarrow> int" where
  "status_sent [] = http_StatusOK"
| "status_sent (WriteHeader c # cs) = c"
| "status_sent (Write b # cs) = http_StatusOK"
| "status_sent (_ # cs) = status_sent cs"

section \<open>Package health: the health use case\<close>

text \<open>
  \<^verbatim>\<open>useCase\<close> holds the logger \<^verbatim>\<open>New\<close> was given. \<^verbatim>\<open>Health\<close> sends one info record to it and
  returns the response and a nil error; the model returns the record's message with them.
\<close>

record 'l useCase =
  uc_logger :: "'l Logger"

definition health_New :: "'l Logger \<Rightarrow> 'l useCase" where
  "health_New logger' = \<lparr>uc_logger = logger'\<rparr>"

definition Health ::
  "'l useCase \<Rightarrow> 'ctx \<Rightarrow> DefaultRequest \<Rightarrow> string list \<times> DefaultResponse \<times> error option" where
  "Health u ctx request = ([''Health check''], \<lparr>Message = ''OK''\<rparr>, None)"

text \<open>
  The method value \<^verbatim>\<open>uc.Health\<close> as a \<^verbatim>\<open>UseCaseFunc[DefaultRequest, DefaultResponse]\<close>, and
  how \<^verbatim>\<open>encoding/json\<close> marshals its response type.
\<close>

definition Health_UseCaseFunc ::
  "'l useCase \<Rightarrow> ('ctx, DefaultRequest, DefaultResponse) UseCaseFunc" where
  "Health_UseCaseFunc u = (\<lambda>ctx request. snd (Health u ctx request))"

definition marshal_DefaultResponse :: "DefaultResponse \<Rightarrow> error + string" where
  "marshal_DefaultResponse d = json_Marshal (\<lambda>_. Inr []) (AnyDefaultResponse d :: unit any)"

section \<open>The configuration an option list asks for\<close>

text \<open>
  The option lists a caller can build are lists of the three options, each with its
  argument. For such a list, the configured success code, encoder and logger in the spec's
  words: the argument of the last option that sets the field, or the default when there is
  none, when the code is not positive, or when the encoder or logger given is nil.
\<close>

datatype ('resp, 'l) setting =
    SuccessCode int
  | AnEncoder "'resp Encoder option"
  | ALogger "'l Logger option"

fun option_of :: "('resp, 'l) setting \<Rightarrow> ('resp, 'l) Option" where
  "option_of (SuccessCode c) = WithSuccessCode c"
| "option_of (AnEncoder e) = WithEncoder e"
| "option_of (ALogger l) = WithLogger l"

fun last_code :: "('resp, 'l) setting list \<Rightarrow> int option" where
  "last_code [] = None"
| "last_code (x # xs) =
     (case last_code xs of
        Some c \<Rightarrow> Some c
      | None \<Rightarrow> (case x of SuccessCode c \<Rightarrow> Some c | _ \<Rightarrow> None))"

fun last_encoder :: "('resp, 'l) setting list \<Rightarrow> 'resp Encoder option option" where
  "last_encoder [] = None"
| "last_encoder (x # xs) =
     (case last_encoder xs of
        Some e \<Rightarrow> Some e
      | None \<Rightarrow> (case x of AnEncoder e \<Rightarrow> Some e | _ \<Rightarrow> None))"

fun last_logger :: "('resp, 'l) setting list \<Rightarrow> 'l Logger option option" where
  "last_logger [] = None"
| "last_logger (x # xs) =
     (case last_logger xs of
        Some l \<Rightarrow> Some l
      | None \<Rightarrow> (case x of ALogger l \<Rightarrow> Some l | _ \<Rightarrow> None))"

definition configured_code :: "('resp, 'l) setting list \<Rightarrow> int" where
  "configured_code xs =
     (case last_code xs of None \<Rightarrow> 200 | Some c \<Rightarrow> if c \<le> 0 then 200 else c)"

definition configured_encoder ::
  "('resp \<Rightarrow> error + string) \<Rightarrow> ('resp, 'l) setting list \<Rightarrow> 'resp Encoder" where
  "configured_encoder mr xs =
     (case last_encoder xs of
        None \<Rightarrow> JsonEncoder mr
      | Some None \<Rightarrow> JsonEncoder mr
      | Some (Some e) \<Rightarrow> e)"

definition configured_logger :: "('resp, 'l) setting list \<Rightarrow> 'l Logger" where
  "configured_logger xs =
     (case last_logger xs of
        None \<Rightarrow> slogx_New
      | Some None \<Rightarrow> slogx_New
      | Some (Some l) \<Rightarrow> l)"

section \<open>Reading a message body back\<close>

text \<open>
  What it means for a body to decode to a message object: the body is the text
  \<^verbatim>\<open>{"message":\<close>, one JSON string literal, \<^verbatim>\<open>}\<close> and a newline, and the message is what the
  literal denotes. \<^verbatim>\<open>unquote\<close> reads a literal after its opening quote up to the closing one,
  as \<^verbatim>\<open>encoding/json\<close> unquotes it: the two-character escapes; \<^verbatim>\<open>\uXXXX\<close> as the UTF-8 of
  that code point; no raw control character; a raw byte from \<^verbatim>\<open>0x80\<close> as the sequence it
  starts, or as U+FFFD when it starts none. It returns the text read and what follows the
  closing quote. \<^verbatim>\<open>None\<close> is a malformed literal, and also a \<^verbatim>\<open>\uXXXX\<close> in the surrogate
  range, which is not followed up here.
\<close>

definition hexval :: "char \<Rightarrow> nat option" where
  "hexval c =
     (let n = (of_char c :: nat) in
      if 48 \<le> n \<and> n \<le> 57 then Some (n - 48)
      else if 97 \<le> n \<and> n \<le> 102 then Some (n - 87)
      else if 65 \<le> n \<and> n \<le> 70 then Some (n - 55)
      else None)"

definition getu4 :: "char \<Rightarrow> char \<Rightarrow> char \<Rightarrow> char \<Rightarrow> nat option" where
  "getu4 a b x y =
     (case hexval a of None \<Rightarrow> None | Some h3 \<Rightarrow>
      case hexval b of None \<Rightarrow> None | Some h2 \<Rightarrow>
      case hexval x of None \<Rightarrow> None | Some h1 \<Rightarrow>
      case hexval y of None \<Rightarrow> None | Some h0 \<Rightarrow>
        Some (4096 * h3 + 256 * h2 + 16 * h1 + h0))"

definition EncodeRune :: "nat \<Rightarrow> string option" where
  "EncodeRune n =
     (if n < 0x80 then Some [char_of n]
      else if n < 0x800 then Some [char_of (0xC0 + n div 64), char_of (0x80 + n mod 64)]
      else if 0xD800 \<le> n \<and> n \<le> 0xDFFF then None
      else Some [char_of (0xE0 + n div 4096), char_of (0x80 + (n div 64) mod 64),
                 char_of (0x80 + n mod 64)])"

definition unescape :: "char \<Rightarrow> char option" where
  "unescape d =
     (if d = CHR 0x22 \<or> d = CHR 0x5C \<or> d = CHR ''/'' then Some d
      else if d = CHR ''b'' then Some (CHR 0x08)
      else if d = CHR ''f'' then Some (CHR 0x0C)
      else if d = CHR ''n'' then Some (CHR 0x0A)
      else if d = CHR ''r'' then Some (CHR 0x0D)
      else if d = CHR ''t'' then Some (CHR 0x09)
      else None)"

definition prepend :: "string \<Rightarrow> (string \<times> string) option \<Rightarrow> (string \<times> string) option" where
  "prepend p res = (case res of None \<Rightarrow> None | Some (t, rest) \<Rightarrow> Some (p @ t, rest))"

fun unquote :: "string \<Rightarrow> (string \<times> string) option" where
  "unquote [] = None"
| "unquote (c # cs) =
     (if c = CHR 0x22 then Some ([], cs)
      else if c = CHR 0x5C then
        (case cs of
           [] \<Rightarrow> None
         | d # ds \<Rightarrow>
             if d = CHR ''u'' then
               (case ds of
                  a # b # x # y # rest \<Rightarrow>
                    (case getu4 a b x y of
                       None \<Rightarrow> None
                     | Some n \<Rightarrow>
                         (case EncodeRune n of
                            None \<Rightarrow> None
                          | Some bytes \<Rightarrow> prepend bytes (unquote rest)))
                | _ \<Rightarrow> None)
             else (case unescape d of
                     None \<Rightarrow> None
                   | Some e \<Rightarrow> prepend [e] (unquote ds)))
      else if (of_char c :: nat) < 0x20 then None
      else if (of_char c :: nat) < 0x80 then prepend [c] (unquote cs)
      else if rune_size (c # cs) = 0
        then prepend [CHR 0xEF, CHR 0xBF, CHR 0xBD] (unquote cs)
      else prepend (take (rune_size (c # cs)) (c # cs))
             (unquote (drop (rune_size (c # cs) - 1) cs)))"

fun strip_prefix :: "string \<Rightarrow> string \<Rightarrow> string option" where
  "strip_prefix [] s = Some s"
| "strip_prefix (p # ps) [] = None"
| "strip_prefix (p # ps) (c # cs) = (if p = c then strip_prefix ps cs else None)"

definition decode_message :: "string \<Rightarrow> string option" where
  \<open>decode_message body =
     (case strip_prefix ''{"message":"'' body of
        None \<Rightarrow> None
      | Some rest \<Rightarrow>
          (case unquote rest of
             None \<Rightarrow> None
           | Some (m, tail) \<Rightarrow> if tail = ''}'' @ [CHR 0x0A] then Some m else None))\<close>

section \<open>Extraction of classified errors\<close>

lemma first_of_append:
  "first_of (xs @ ys) = (case first_of xs of Some x \<Rightarrow> Some x | None \<Rightarrow> first_of ys)"
  by (cases xs) (simp_all add: first_of_def)

lemma errors_As_chain:
  "errors_As e = first_of (concat (map classified_of (wrap_chain e)))"
  "errors_As_each es = first_of (concat (map classified_of (concat (map wrap_chain es))))"
proof (induction e and es rule: errors_As_errors_As_each.induct)
  case (6 e es)
  then show ?case by (simp add: first_of_append split: option.splits)
qed (simp_all add: first_of_def)

text \<open>
  C7. For every error value, \<^verbatim>\<open>errorsx.As\<close> returns the first \<^verbatim>\<open>*Errorx\<close> of the wrap chain
  with \<^verbatim>\<open>true\<close>, and \<^verbatim>\<open>(nil, false)\<close> when the chain holds none: it is the first element,
  if any, of the chain's classified errors.
\<close>

theorem As_first_classified:
  "As err = (case first_classified err of None \<Rightarrow> (None, False) | Some e \<Rightarrow> (e, True))"
  by (simp add: As_def first_classified_def errors_As_chain(1))

section \<open>Options\<close>

lemma Option_commute:
  "WithEncoder e (WithSuccessCode c h) = WithSuccessCode c (WithEncoder e h)"
  "WithLogger l (WithSuccessCode c h) = WithSuccessCode c (WithLogger l h)"
  "WithLogger l (WithEncoder e h) = WithEncoder e (WithLogger l h)"
  by (simp_all add: WithSuccessCode_def WithEncoder_def WithLogger_def)

lemma Option_absorb:
  "WithSuccessCode c (WithSuccessCode c0 h) = WithSuccessCode c h"
  "WithEncoder e (WithEncoder e0 h) = WithEncoder e h"
  "WithLogger l (WithLogger l0 h) = WithLogger l h"
  by (simp_all add: WithSuccessCode_def WithEncoder_def WithLogger_def)

lemma fold_other_successCode:
  "fold (\<lambda>option h. option h) (map (case_sum WithEncoder WithLogger) mid) (WithSuccessCode c h) =
   WithSuccessCode c (fold (\<lambda>option h. option h) (map (case_sum WithEncoder WithLogger) mid) h)"
proof (induction mid arbitrary: h)
  case Nil
  show ?case by simp
next
  case (Cons x mid)
  show ?case by (cases x) (simp_all add: Option_commute Cons.IH)
qed

lemma fold_other_encoder:
  "fold (\<lambda>option h. option h) (map (case_sum WithSuccessCode WithLogger) mid) (WithEncoder e h) =
   WithEncoder e (fold (\<lambda>option h. option h) (map (case_sum WithSuccessCode WithLogger) mid) h)"
proof (induction mid arbitrary: h)
  case Nil
  show ?case by simp
next
  case (Cons x mid)
  show ?case
    by (cases x) (simp_all add: Option_commute(1) [symmetric] Option_commute(3) Cons.IH)
qed

lemma fold_other_logger:
  "fold (\<lambda>option h. option h) (map (case_sum WithSuccessCode WithEncoder) mid) (WithLogger l h) =
   WithLogger l (fold (\<lambda>option h. option h) (map (case_sum WithSuccessCode WithEncoder) mid) h)"
proof (induction mid arbitrary: h)
  case Nil
  show ?case by simp
next
  case (Cons x mid)
  show ?case by (cases x) (simp_all add: Option_commute [symmetric] Cons.IH)
qed

lemma fold_case_sum_successCode:
  "successCode (fold (\<lambda>option h. option h) (map (case_sum WithEncoder WithLogger) rest) h) =
   successCode h"
  by (induction rest arbitrary: h) (auto simp: WithEncoder_def WithLogger_def split: sum.splits)

lemma successCode_applyOptions:
  "successCode (applyOptions mr options) =
     (let c = successCode (fold (\<lambda>option h. option h) options
                \<lparr>successCode = 0, encoder = None, logger = None\<rparr>)
      in if c \<le> 0 then 200 else c)"
  by (simp add: applyOptions_def Let_def http_StatusOK_def split: option.splits)

text \<open>
  C9. Whatever the options, the success code \<^verbatim>\<open>applyOptions\<close> returns is positive. When the
  last \<^verbatim>\<open>WithSuccessCode\<close> of the list carries a code that is zero or negative, the code
  returned is 200 and not that code; it is 200 as well when the list holds no
  \<^verbatim>\<open>WithSuccessCode\<close> at all.
\<close>

theorem applyOptions_successCode_positive:
  "0 < successCode (applyOptions mr options)
 \<and> successCode (applyOptions mr
       (opts @ [WithSuccessCode c] @ map (case_sum WithEncoder WithLogger) rest)) =
     (if c \<le> 0 then 200 else c)
 \<and> successCode (applyOptions mr (map (case_sum WithEncoder WithLogger) rest)) = 200"
  by (simp add: successCode_applyOptions Let_def fold_case_sum_successCode WithSuccessCode_def)

lemma fold_case_sum_encoder:
  "encoder (fold (\<lambda>option h. option h) (map (case_sum WithSuccessCode WithLogger) rest) h) =
   encoder h"
  by (induction rest arbitrary: h) (auto simp: WithSuccessCode_def WithLogger_def split: sum.splits)

lemma fold_case_sum_logger:
  "logger (fold (\<lambda>option h. option h) (map (case_sum WithSuccessCode WithEncoder) rest) h) =
   logger h"
  by (induction rest arbitrary: h) (auto simp: WithSuccessCode_def WithEncoder_def split: sum.splits)

lemma encoder_applyOptions:
  "encoder (applyOptions mr options) =
     (case encoder (fold (\<lambda>option h. option h) options
                \<lparr>successCode = 0, encoder = None, logger = None\<rparr>) of
        None \<Rightarrow> Some (JsonEncoder mr) | Some e \<Rightarrow> Some e)"
  by (simp add: applyOptions_def Let_def split: option.splits)

lemma logger_applyOptions:
  "logger (applyOptions mr options) =
     (case logger (fold (\<lambda>option h. option h) options
                \<lparr>successCode = 0, encoder = None, logger = None\<rparr>) of
        None \<Rightarrow> Some slogx_New | Some l \<Rightarrow> Some l)"
  by (simp add: applyOptions_def Let_def split: option.splits)

lemma fold_settings:
  "successCode (fold (\<lambda>option h. option h) (map option_of xs) h) =
     (case last_code xs of None \<Rightarrow> successCode h | Some c \<Rightarrow> c)"
  "encoder (fold (\<lambda>option h. option h) (map option_of xs) h) =
     (case last_encoder xs of None \<Rightarrow> encoder h | Some e \<Rightarrow> e)"
  "logger (fold (\<lambda>option h. option h) (map option_of xs) h) =
     (case last_logger xs of None \<Rightarrow> logger h | Some l \<Rightarrow> l)"
proof (induction xs arbitrary: h)
  case Nil
  {
    case 1 show ?case by simp
  next
    case 2 show ?case by simp
  next
    case 3 show ?case by simp
  }
next
  case (Cons x xs)
  {
    case 1
    show ?case
      by (cases x) (simp_all add: Cons.IH(1) WithSuccessCode_def WithEncoder_def WithLogger_def
          split: option.splits)
  next
    case 2
    show ?case
      by (cases x) (simp_all add: Cons.IH(2) WithSuccessCode_def WithEncoder_def WithLogger_def
          split: option.splits)
  next
    case 3
    show ?case
      by (cases x) (simp_all add: Cons.IH(3) WithSuccessCode_def WithEncoder_def WithLogger_def
          split: option.splits)
  }
qed

lemma applyOptions_configured:
  "successCode (applyOptions mr (map option_of xs)) = configured_code xs"
  "encoder (applyOptions mr (map option_of xs)) = Some (configured_encoder mr xs)"
  "logger (applyOptions mr (map option_of xs)) = Some (configured_logger xs)"
  by (simp_all add: successCode_applyOptions encoder_applyOptions logger_applyOptions Let_def
      fold_settings configured_code_def configured_encoder_def configured_logger_def
      split: option.splits)

lemma applyOptions_field_set:
  "successCode (applyOptions mr
       (opts @ [WithSuccessCode c] @ map (case_sum WithEncoder WithLogger) rest1)) =
     (if c \<le> 0 then 200 else c)"
  "encoder (applyOptions mr
       (opts @ [WithEncoder e] @ map (case_sum WithSuccessCode WithLogger) rest2)) =
     (case e of None \<Rightarrow> Some (JsonEncoder mr) | Some x \<Rightarrow> Some x)"
  "logger (applyOptions mr
       (opts @ [WithLogger l] @ map (case_sum WithSuccessCode WithEncoder) rest3)) =
     (case l of None \<Rightarrow> Some slogx_New | Some x \<Rightarrow> Some x)"
  by (simp_all add: successCode_applyOptions encoder_applyOptions logger_applyOptions Let_def
      fold_case_sum_successCode fold_case_sum_encoder fold_case_sum_logger
      WithSuccessCode_def WithEncoder_def WithLogger_def)

text \<open>
  C6. Option application is last-write-wins. Applying an option twice at the end of any
  option list gives the configuration that applying it once gives, for each of the three
  options; of two settings of one field, with any options for the other fields between
  them, the earlier one can be left out; and after a setting of a field that only options
  for the other fields follow, whatever came before it, the field holds what that setting
  gave: the code, or 200 for a code that is not positive; the encoder, or the JSON encoder
  for a nil one; the logger, or the default logger for a nil one.
\<close>

theorem applyOptions_last_write_wins:
  "applyOptions mr (opts @ [WithSuccessCode c, WithSuccessCode c]) =
     applyOptions mr (opts @ [WithSuccessCode c])
 \<and> applyOptions mr (opts @ [WithEncoder e, WithEncoder e]) =
     applyOptions mr (opts @ [WithEncoder e])
 \<and> applyOptions mr (opts @ [WithLogger l, WithLogger l]) =
     applyOptions mr (opts @ [WithLogger l])
 \<and> applyOptions mr
       (opts @ [WithSuccessCode c0] @ map (case_sum WithEncoder WithLogger) mid1 @ [WithSuccessCode c]) =
     applyOptions mr (opts @ map (case_sum WithEncoder WithLogger) mid1 @ [WithSuccessCode c])
 \<and> applyOptions mr
       (opts @ [WithEncoder e0] @ map (case_sum WithSuccessCode WithLogger) mid2 @ [WithEncoder e]) =
     applyOptions mr (opts @ map (case_sum WithSuccessCode WithLogger) mid2 @ [WithEncoder e])
 \<and> applyOptions mr
       (opts @ [WithLogger l0] @ map (case_sum WithSuccessCode WithEncoder) mid3 @ [WithLogger l]) =
     applyOptions mr (opts @ map (case_sum WithSuccessCode WithEncoder) mid3 @ [WithLogger l])
 \<and> successCode (applyOptions mr
       (opts @ [WithSuccessCode c] @ map (case_sum WithEncoder WithLogger) rest1)) =
     (if c \<le> 0 then 200 else c)
 \<and> encoder (applyOptions mr
       (opts @ [WithEncoder e] @ map (case_sum WithSuccessCode WithLogger) rest2)) =
     (case e of None \<Rightarrow> Some (JsonEncoder mr) | Some x \<Rightarrow> Some x)
 \<and> logger (applyOptions mr
       (opts @ [WithLogger l] @ map (case_sum WithSuccessCode WithEncoder) rest3)) =
     (case l of None \<Rightarrow> Some slogx_New | Some x \<Rightarrow> Some x)"
proof -
  have a: "applyOptions mr (opts @ [WithSuccessCode c, WithSuccessCode c]) =
      applyOptions mr (opts @ [WithSuccessCode c])"
    by (simp add: applyOptions_def Option_absorb)
  have b: "applyOptions mr (opts @ [WithEncoder e, WithEncoder e]) =
      applyOptions mr (opts @ [WithEncoder e])"
    by (simp add: applyOptions_def Option_absorb)
  have c: "applyOptions mr (opts @ [WithLogger l, WithLogger l]) =
      applyOptions mr (opts @ [WithLogger l])"
    by (simp add: applyOptions_def Option_absorb)
  have d: "applyOptions mr
      (opts @ [WithSuccessCode c0] @ map (case_sum WithEncoder WithLogger) mid1 @ [WithSuccessCode c]) =
      applyOptions mr (opts @ map (case_sum WithEncoder WithLogger) mid1 @ [WithSuccessCode c])"
    by (simp add: applyOptions_def fold_other_successCode Option_absorb)
  have e: "applyOptions mr
      (opts @ [WithEncoder e0] @ map (case_sum WithSuccessCode WithLogger) mid2 @ [WithEncoder e]) =
      applyOptions mr (opts @ map (case_sum WithSuccessCode WithLogger) mid2 @ [WithEncoder e])"
    by (simp add: applyOptions_def fold_other_encoder Option_absorb)
  have f: "applyOptions mr
      (opts @ [WithLogger l0] @ map (case_sum WithSuccessCode WithEncoder) mid3 @ [WithLogger l]) =
      applyOptions mr (opts @ map (case_sum WithSuccessCode WithEncoder) mid3 @ [WithLogger l])"
    by (simp add: applyOptions_def fold_other_logger Option_absorb)
  show ?thesis
    by (intro conjI a b c d e f applyOptions_field_set)
qed

section \<open>Encoders and nil receivers\<close>

lemma jsonEncoder_nil_iff:
  "(jsonEncoder_Encode mr d src = Inl NilPointerDereference) = (\<forall>w'. d \<noteq> jsonEncoder_New d w')"
proof (cases d)
  case (fields x)
  show ?thesis
  proof (cases x)
    case None
    with fields show ?thesis by (simp add: jsonEncoder_Encode_def jsonEncoder_New_def)
  next
    case (Some enc)
    obtain w0 where "enc = \<lparr>json_w = w0\<rparr>" by (cases enc) simp
    with Some fields have "d = jsonEncoder_New d w0"
      by (simp add: jsonEncoder_New_def json_NewEncoder_def)
    with Some fields show ?thesis by (auto simp add: jsonEncoder_Encode_def)
  qed
qed

lemma xmlEncoder_nil_iff:
  "(xmlEncoder_Encode xe e src = Inl NilPointerDereference) = (\<forall>w'. e \<noteq> xmlEncoder_New e w')"
proof (cases e)
  case (fields x)
  show ?thesis
  proof (cases x)
    case None
    with fields show ?thesis by (simp add: xmlEncoder_Encode_def xmlEncoder_New_def)
  next
    case (Some enc)
    obtain w0 where "enc = \<lparr>xml_w = w0\<rparr>" by (cases enc) simp
    with Some fields have "e = xmlEncoder_New e w0"
      by (simp add: xmlEncoder_New_def xml_NewEncoder_def)
    with Some fields show ?thesis by (auto simp add: xmlEncoder_Encode_def)
  qed
qed

text \<open>
  C10. \<^verbatim>\<open>Encode\<close> called on the package-level \<^verbatim>\<open>JsonEncoder\<close> or \<^verbatim>\<open>XmlEncoder\<close> itself
  dereferences the nil inner encoder, whatever the value. Called on what \<^verbatim>\<open>New(w)\<close> returned
  it does not: it is the inner encoder's \<^verbatim>\<open>Encode\<close> on \<^verbatim>\<open>w\<close>. And a receiver on which \<^verbatim>\<open>Encode\<close>
  panics is exactly one that no call of \<^verbatim>\<open>New\<close> returned.
\<close>

theorem Encode_nil_unless_New:
  "jsonEncoder_Encode mr JsonEncoder_var src = Inl NilPointerDereference
 \<and> xmlEncoder_Encode xe XmlEncoder_var src' = Inl NilPointerDereference
 \<and> jsonEncoder_Encode mr (jsonEncoder_New d w') src = Inr (JsonEncoder mr w' src)
 \<and> xmlEncoder_Encode xe (xmlEncoder_New e w') src' = Inr (XmlEncoder xe w' src')
 \<and> (jsonEncoder_Encode mr d src = Inl NilPointerDereference) = (\<forall>w'. d \<noteq> jsonEncoder_New d w')
 \<and> (xmlEncoder_Encode xe e src' = Inl NilPointerDereference) = (\<forall>w'. e \<noteq> xmlEncoder_New e w')"
  using jsonEncoder_nil_iff [of mr d src] xmlEncoder_nil_iff [of xe e src']
  by (simp add: jsonEncoder_Encode_def xmlEncoder_Encode_def JsonEncoder_var_def
      XmlEncoder_var_def jsonEncoder_New_def xmlEncoder_New_def JsonEncoder_def XmlEncoder_def)

section \<open>The handler, path by path\<close>

lemma applyOptions_nonnil:
  "\<exists>enc l. encoder (applyOptions mr options) = Some enc \<and> logger (applyOptions mr options) = Some l"
  by (simp add: applyOptions_def Let_def split: option.splits)

lemma logger_log_Some:
  "logger h = Some l \<Longrightarrow>
   logger_log h lv i m v s = Some (s\<lparr>logs := logs s @ [Record lv i m v]\<rparr>)"
  by (simp add: logger_log_def)

lemma encoder_New_Encode_Some:
  "encoder h = Some enc \<Longrightarrow>
   encoder_New_Encode h w' src s =
     Some (snd (enc w' src), s\<lparr>calls := calls s @ map Write (fst (enc w' src))\<rparr>)"
  by (simp add: encoder_New_Encode_def split: prod.splits)

lemma is_external_True:
  "As err = (Some x, True) \<Longrightarrow> \<not> isInternal x \<Longrightarrow> is_external (As err) = Some True"
  by (simp add: is_external_def Errorx_Internal_def)

lemma As_found_text:
  "As err = (Some x, True) \<Longrightarrow> \<exists>t. error_Error err = Some t"
  by (cases err) (auto simp: As_def Errorx_Error_def split: option.splits)

lemmas handler_steps =
  handlerFunc_def logger_log_Some encoder_New_Encode_Some w_WriteHeader_def http_Error_def
  is_external_def Errorx_Internal_def Errorx_Code_def Errorx_Error_def

lemma handlerFunc_bind_external:
  assumes "encoder h = Some enc" "logger h = Some l"
    and "Bind R zero r = (req, Some err)"
    and "As err = (Some x, True)" "\<not> isInternal x" "error_Error err = Some t"
    and "enc w' (AnyDefaultResponse \<lparr>Message = t\<rparr>) = (ws, eerr)"
  shows "handlerFunc R zero Context useCase h id' w' r =
    Some \<lparr>calls = WriteHeader (code x) # map Write ws @
             (case eerr of None \<Rightarrow> []
              | Some e \<Rightarrow> http_Error_calls StatusText_InternalServerError http_StatusInternalServerError),
          logs = Record LevelError id' ''failed to bind request'' (AnError (Classified (Some x))) #
             (case eerr of None \<Rightarrow> []
              | Some e \<Rightarrow> [Record LevelError id' ''failed to write error response'' (AnError e)])\<rparr>"
  using assms by (simp add: handler_steps split: option.splits)

lemma handlerFunc_bind_internal:
  assumes "encoder h = Some enc" "logger h = Some l"
    and "Bind R zero r = (req, Some err)" "is_external (As err) = Some False"
    and "enc w' (AnyDefaultResponse \<lparr>Message = StatusText_InternalServerError\<rparr>) = (ws, eerr)"
  shows "handlerFunc R zero Context useCase h id' w' r =
    Some \<lparr>calls = WriteHeader http_StatusInternalServerError # map Write ws @
             (case eerr of None \<Rightarrow> []
              | Some e \<Rightarrow> http_Error_calls StatusText_InternalServerError http_StatusInternalServerError),
          logs = (case eerr of None \<Rightarrow> []
              | Some e \<Rightarrow> [Record LevelError id' ''failed to write error response'' (AnError e)])\<rparr>"
  using assms
  by (cases "As err")
     (simp add: handlerFunc_def logger_log_Some encoder_New_Encode_Some w_WriteHeader_def
        http_Error_def split: option.splits)

lemma handlerFunc_validate_external:
  assumes "encoder h = Some enc" "logger h = Some l"
    and "Bind R zero r = (req, None)" "Validate R req = Some err"
    and "As err = (Some x, True)" "\<not> isInternal x"
    and "enc w' (AnyString (message x)) = (ws, eerr)"
  shows "handlerFunc R zero Context useCase h id' w' r =
    Some \<lparr>calls = WriteHeader (code x) # map Write ws @
             (case eerr of None \<Rightarrow> []
              | Some e \<Rightarrow> http_Error_calls StatusText_InternalServerError http_StatusInternalServerError),
          logs = Record LevelInfo id' ''request'' (ARequest req) #
             Record LevelError id' ''failed to validate request'' (AnError (Classified (Some x))) #
             (case eerr of None \<Rightarrow> []
              | Some e \<Rightarrow> [Record LevelError id' ''failed to write error response'' (AnError e)])\<rparr>"
  using assms by (simp add: handler_steps split: option.splits)

lemma handlerFunc_validate_internal:
  assumes "encoder h = Some enc" "logger h = Some l"
    and "Bind R zero r = (req, None)" "Validate R req = Some err"
    and "is_external (As err) = Some False"
  shows "handlerFunc R zero Context useCase h id' w' r =
    Some \<lparr>calls = http_Error_calls StatusText_InternalServerError http_StatusInternalServerError,
          logs = [Record LevelInfo id' ''request'' (ARequest req)]\<rparr>"
  using assms
  by (cases "As err")
     (simp add: handlerFunc_def logger_log_Some encoder_New_Encode_Some w_WriteHeader_def
        http_Error_def split: option.splits)

lemma handlerFunc_useCase_external:
  assumes "encoder h = Some enc" "logger h = Some l"
    and "Bind R zero r = (req, None)" "Validate R req = None"
    and "useCase (Context r) req = (response, Some err)"
    and "As err = (Some x, True)" "\<not> isInternal x"
    and "enc w' (AnyString (message x)) = (ws, eerr)"
  shows "handlerFunc R zero Context useCase h id' w' r =
    Some \<lparr>calls = WriteHeader (code x) # map Write ws @
             (case eerr of None \<Rightarrow> []
              | Some e \<Rightarrow> http_Error_calls StatusText_InternalServerError http_StatusInternalServerError),
          logs = [Record LevelInfo id' ''request'' (ARequest req)]\<rparr>"
  using assms by (simp add: handler_steps split: option.splits)

lemma handlerFunc_useCase_internal:
  assumes "encoder h = Some enc" "logger h = Some l"
    and "Bind R zero r = (req, None)" "Validate R req = None"
    and "useCase (Context r) req = (response, Some err)"
    and "is_external (As err) = Some False"
  shows "handlerFunc R zero Context useCase h id' w' r =
    Some \<lparr>calls = http_Error_calls StatusText_InternalServerError http_StatusInternalServerError,
          logs = [Record LevelInfo id' ''request'' (ARequest req)]\<rparr>"
  using assms
  by (cases "As err")
     (simp add: handlerFunc_def logger_log_Some encoder_New_Encode_Some w_WriteHeader_def
        http_Error_def split: option.splits)

lemma handlerFunc_success:
  assumes "encoder h = Some enc" "logger h = Some l"
    and "Bind R zero r = (req, None)" "Validate R req = None"
    and "useCase (Context r) req = (response, None)"
    and "enc w' (AnyResp response) = (ws, None)"
  shows "handlerFunc R zero Context useCase h id' w' r =
    Some \<lparr>calls = WriteHeader (successCode h) # map Write ws,
          logs = [Record LevelInfo id' ''request'' (ARequest req),
                  Record LevelInfo id' ''response'' (AResponse response)]\<rparr>"
  using assms by (simp add: handler_steps split: option.splits)

lemma handlerFunc_success_encode_internal:
  assumes "encoder h = Some enc" "logger h = Some l"
    and "Bind R zero r = (req, None)" "Validate R req = None"
    and "useCase (Context r) req = (response, None)"
    and "enc w' (AnyResp response) = (ws, Some e)" "is_external (As e) = Some False"
  shows "handlerFunc R zero Context useCase h id' w' r =
    Some \<lparr>calls = WriteHeader (successCode h) # map Write ws @
            http_Error_calls StatusText_InternalServerError http_StatusInternalServerError,
          logs = [Record LevelInfo id' ''request'' (ARequest req),
                  Record LevelInfo id' ''response'' (AResponse response)]\<rparr>"
  using assms
  by (cases "As e")
     (simp add: handlerFunc_def logger_log_Some encoder_New_Encode_Some w_WriteHeader_def
        http_Error_def split: option.splits)

section \<open>What one run writes\<close>

lemma status_writes_append: "status_writes (xs @ ys) = status_writes xs @ status_writes ys"
  by (induction xs rule: status_writes.induct) simp_all

lemma status_writes_Write: "status_writes (map Write ws) = []"
  by (induction ws) simp_all

lemma body_of_append: "body_of (xs @ ys) = body_of xs @ body_of ys"
  by (induction xs rule: body_of.induct) simp_all

lemma body_of_Write: "body_of (map Write ws) = concat ws"
  by (induction ws) simp_all

lemma status_sent_Error: "status_sent (http_Error_calls t c) = c"
  by (simp add: http_Error_calls_def)

lemma encoder_applyOptions_Nil: "encoder (applyOptions mr []) = Some (JsonEncoder mr)"
  by (simp add: applyOptions_def)

lemma JsonEncoder_DefaultResponse:
  \<open>JsonEncoder mr w' (AnyDefaultResponse \<lparr>Message = m\<rparr>) =
     ([''{"message":'' @ appendString m @ ''}'' @ [CHR 0x0A]],
      w' (''{"message":'' @ appendString m @ ''}'' @ [CHR 0x0A]))\<close>
  by (simp add: JsonEncoder_def json_Encoder_Encode_def json_Marshal_def json_NewEncoder_def)

lemma JsonEncoder_String:
  "JsonEncoder mr w' (AnyString m) =
     ([appendString m @ [CHR 0x0A]], w' (appendString m @ [CHR 0x0A]))"
  by (simp add: JsonEncoder_def json_Encoder_Encode_def json_Marshal_def json_NewEncoder_def)

lemma JsonEncoder_Errorx:
  "JsonEncoder mr w' (AnyErrorx (Some e)) = ([''{}'' @ [CHR 0x0A]], w' (''{}'' @ [CHR 0x0A]))"
  by (simp add: JsonEncoder_def json_Encoder_Encode_def json_Marshal_def json_NewEncoder_def)

lemma JsonEncoder_Resp:
  "JsonEncoder mr w' (AnyResp x) =
     (case mr x of Inl err \<Rightarrow> ([], Some err)
      | Inr b \<Rightarrow> ([b @ [CHR 0x0A]], w' (b @ [CHR 0x0A])))"
  by (simp add: JsonEncoder_def json_Encoder_Encode_def json_Marshal_def json_NewEncoder_def
      split: sum.splits)

lemma is_external_Opaque: "is_external (As (Opaque m)) = Some False"
  by (simp add: is_external_def As_def)

text \<open>
  C1, at the response-encoding stage. With no options, a request that binds and validates,
  and a use case whose response \<^verbatim>\<open>encoding/json\<close> cannot marshal: the handler writes the
  status 200, the encoder returns its error without writing, and the handler then makes the
  calls of \<^verbatim>\<open>http.Error\<close>. Two statuses are written in the one run, 200 and 500, where the
  claim has one.
\<close>

theorem Handle_two_status_writes:
  "\<exists>s. Handle (\<lambda>_ :: unit. Inl (Opaque ''json: unsupported value''))
        \<lparr>Bind = DefaultRequest_Bind, Validate = DefaultRequest_Validate, String = (\<lambda>_. '''')\<rparr>
        DefaultRequest (\<lambda>_ :: unit. ()) (\<lambda>_ _. ((), None)) ([] :: (unit, unit) Option list)
        ''id'' (\<lambda>_. None) () = Some s
     \<and> status_writes (calls s) = [200, 500]
     \<and> calls s =
         [WriteHeader 200,
          Header_Del ''Content-Length'',
          Header_Set ''Content-Type'' ''text/plain; charset=utf-8'',
          Header_Set ''X-Content-Type-Options'' ''nosniff'',
          WriteHeader 500,
          Write (''Internal Server Error'' @ [CHR 0x0A])]"
proof -
  let ?mr = "\<lambda>_ :: unit. Inl (Opaque ''json: unsupported value'') :: error + string"
  let ?h = "applyOptions ?mr ([] :: (unit, unit) Option list)"
  have h: "encoder ?h = Some (JsonEncoder ?mr)" "logger ?h = Some slogx_New"
    and sc: "successCode ?h = 200"
    by (simp_all add: applyOptions_def http_StatusOK_def)
  have e: "JsonEncoder ?mr (\<lambda>_. None) (AnyResp ()) = ([], Some (Opaque ''json: unsupported value''))"
    by (simp add: JsonEncoder_Resp)
  have run: "handlerFunc \<lparr>Bind = DefaultRequest_Bind, Validate = DefaultRequest_Validate,
        String = (\<lambda>_. '''')\<rparr> DefaultRequest (\<lambda>_ :: unit. ()) (\<lambda>_ _. ((), None)) ?h ''id''
        (\<lambda>_. None) () =
      Some \<lparr>calls = WriteHeader (successCode ?h) # map Write [] @
            http_Error_calls StatusText_InternalServerError http_StatusInternalServerError,
          logs = [Record LevelInfo ''id'' ''request'' (ARequest DefaultRequest),
                  Record LevelInfo ''id'' ''response'' (AResponse ())]\<rparr>"
    by (rule handlerFunc_success_encode_internal [OF h _ _ _ e is_external_Opaque])
       (simp_all add: DefaultRequest_Bind_def DefaultRequest_Validate_def)
  show ?thesis
    by (simp add: Handle_def Let_def run sc http_Error_calls_def
        http_StatusInternalServerError_def StatusText_InternalServerError_def)
qed

text \<open>
  A \<^verbatim>\<open>Bind\<close> that returns a nil \<^verbatim>\<open>*Errorx\<close> as its error: \<^verbatim>\<open>errorsx.As\<close> finds it, the guard
  calls \<^verbatim>\<open>Internal()\<close> on it, and the handler panics before any call on the response writer.
\<close>

lemma Handle_typed_nil_panics:
  "Handle (\<lambda>_ :: unit. Inr [])
     \<lparr>Bind = (\<lambda>req (r :: unit). (req, Some (Classified None))), Validate = (\<lambda>req. None),
      String = (\<lambda>_. [])\<rparr>
     () (\<lambda>_ :: unit. ()) (\<lambda>_ _. ((), None)) ([] :: (unit, unit) Option list)
     ''id'' (\<lambda>_. None) () = None"
  by (simp add: Handle_def Let_def handlerFunc_def As_def is_external_def Errorx_Internal_def)

section \<open>Success\<close>

text \<open>
  C5, as amended. The options are any list of \<^verbatim>\<open>WithSuccessCode\<close>, \<^verbatim>\<open>WithEncoder\<close> and
  \<^verbatim>\<open>WithLogger\<close>. When \<^verbatim>\<open>Bind\<close>, \<^verbatim>\<open>Validate\<close> and the use case all return a nil error and the
  configured encoder's \<^verbatim>\<open>Encode\<close> of the response returns no error, the handler returns, the
  calls are the configured success code followed by that encoder's writes, the status sent
  is the configured success code and the body is what the encoder wrote. The configured
  success code is the argument of the last \<^verbatim>\<open>WithSuccessCode\<close>, or 200 when there is none or
  the argument is not positive; the configured encoder is the argument of the last
  \<^verbatim>\<open>WithEncoder\<close>, or the JSON encoder when there is none or the argument is nil.
\<close>

theorem Handle_success:
  fixes R :: "('hr, 'req) Request" and useCase :: "('ctx, 'req, 'resp) UseCaseFunc"
    and xs :: "('resp, 'l) setting list"
  assumes b: "Bind R zero r = (req, None)"
    and v: "Validate R req = None"
    and u: "useCase (Context r) req = (response, None)"
    and e: "configured_encoder mr xs w' (AnyResp response) = (ws, None)"
  shows "\<exists>s. Handle mr R zero Context useCase (map option_of xs) id' w' r = Some s
       \<and> calls s = WriteHeader (configured_code xs) # map Write ws
       \<and> status_sent (calls s) = configured_code xs
       \<and> body_of (calls s) = concat ws"
  by (simp add: Handle_def Let_def body_of_Write
      handlerFunc_success [where useCase = useCase and Context = Context,
        OF applyOptions_configured(2) applyOptions_configured(3) b v u e]
      applyOptions_configured(1))

text \<open>
  The theorem at \<^verbatim>\<open>WithSuccessCode(201)\<close>, an encoder given by \<^verbatim>\<open>WithEncoder\<close> that writes
  \<^verbatim>\<open><r/>\<close>, and \<^verbatim>\<open>WithLogger(nil)\<close>.
\<close>

theorem Handle_success_witness:
  "\<exists>s. Handle (\<lambda>_ :: unit. Inr ''null'')
        \<lparr>Bind = (\<lambda>req (r :: unit). (req, None)), Validate = (\<lambda>req. None),
         String = (\<lambda>_. [])\<rparr>
        () (\<lambda>_ :: unit. ()) (\<lambda>_ _. ((), None))
        [WithSuccessCode 201,
         WithEncoder (Some (XmlEncoder (\<lambda>e v. ([''<r/>''], xml_w e ''<r/>'')))),
         WithLogger (None :: unit Logger option)]
        ''id'' (\<lambda>_. None) () = Some s
     \<and> calls s = [WriteHeader 201, Write ''<r/>'']
     \<and> status_sent (calls s) = 201
     \<and> body_of (calls s) = ''<r/>''"
  using Handle_success [where R = "\<lparr>Bind = (\<lambda>req (r :: unit). (req, None)),
         Validate = (\<lambda>req. None), String = (\<lambda>_. [])\<rparr>" and zero = "()" and r = "()"
      and req = "()" and response = "()"
      and useCase = "\<lambda>_ _. ((), None)" and Context = "\<lambda>_ :: unit. ()"
      and mr = "\<lambda>_ :: unit. Inr ''null''"
      and xs = "[SuccessCode 201,
         AnEncoder (Some (XmlEncoder (\<lambda>e v. ([''<r/>''], xml_w e ''<r/>'')))),
         ALogger (None :: unit Logger option)]"
      and ws = "[''<r/>'']" and id' = "''id''" and w' = "\<lambda>_. None"]
  by (simp add: configured_encoder_def configured_code_def XmlEncoder_def xml_NewEncoder_def)

text \<open>
  C5, counterexample. With no options, a request that binds and validates, and a use case
  that returns a nil error with a response \<^verbatim>\<open>encoding/json\<close> cannot marshal: the JSON
  encoder writes nothing and the body is the generic text of \<^verbatim>\<open>http.Error\<close>, not the
  encoder's serialization of the response.
\<close>

theorem Handle_success_body_not_serialization:
  "\<exists>s. Handle (\<lambda>_ :: unit. Inl (Opaque ''json: unsupported type: chan int''))
        \<lparr>Bind = (\<lambda>req (r :: unit). (req, None)), Validate = (\<lambda>req. None),
         String = (\<lambda>_. [])\<rparr>
        () (\<lambda>_ :: unit. ()) (\<lambda>_ _. ((), None)) ([] :: (unit, unit) Option list)
        ''id'' (\<lambda>_. None) () = Some s
     \<and> body_of (calls s) = ''Internal Server Error'' @ [CHR 0x0A]
     \<and> concat (fst (JsonEncoder (\<lambda>_ :: unit. Inl (Opaque ''json: unsupported type: chan int''))
           (\<lambda>_. None) (AnyResp ()))) = []
     \<and> body_of (calls s) \<noteq>
         concat (fst (JsonEncoder (\<lambda>_ :: unit. Inl (Opaque ''json: unsupported type: chan int''))
           (\<lambda>_. None) (AnyResp ())))"
proof -
  let ?mr = "\<lambda>_ :: unit. Inl (Opaque ''json: unsupported type: chan int'') :: error + string"
  let ?R = "\<lparr>Bind = (\<lambda>req (r :: unit). (req, None)), Validate = (\<lambda>req. None),
         String = (\<lambda>_. [])\<rparr> :: (unit, unit) Request"
  let ?h = "applyOptions ?mr ([] :: (unit, unit) Option list)"
  have h: "encoder ?h = Some (JsonEncoder ?mr)" "logger ?h = Some slogx_New"
    by (simp_all add: applyOptions_def)
  have e: "JsonEncoder ?mr (\<lambda>_. None) (AnyResp ()) =
      ([], Some (Opaque ''json: unsupported type: chan int''))"
    by (simp add: JsonEncoder_Resp)
  have run: "handlerFunc ?R () (\<lambda>_ :: unit. ()) (\<lambda>_ _. ((), None)) ?h ''id'' (\<lambda>_. None) () =
      Some \<lparr>calls = WriteHeader (successCode ?h) # map Write [] @
            http_Error_calls StatusText_InternalServerError http_StatusInternalServerError,
          logs = [Record LevelInfo ''id'' ''request'' (ARequest ()),
                  Record LevelInfo ''id'' ''response'' (AResponse ())]\<rparr>"
    by (rule handlerFunc_success_encode_internal [OF h _ _ _ e is_external_Opaque]) simp_all
  show ?thesis
    unfolding Handle_def Let_def run e
    by (simp add: http_Error_calls_def http_StatusInternalServerError_def
        StatusText_InternalServerError_def)
qed

section \<open>Classified external errors from validation and from the use case\<close>

text \<open>
  C4, as amended. The options are any list of \<^verbatim>\<open>WithSuccessCode\<close>, \<^verbatim>\<open>WithEncoder\<close> and
  \<^verbatim>\<open>WithLogger\<close>. When \<^verbatim>\<open>Bind\<close> returns nil and \<^verbatim>\<open>Validate\<close>, or after it the use case, returns
  an error for which \<^verbatim>\<open>errorsx.As\<close> returns a non-nil \<^verbatim>\<open>*Errorx\<close> that is not internal, and
  the configured encoder's \<^verbatim>\<open>Encode\<close> of the string \<^verbatim>\<open>errx.Error()\<close>, the error's message,
  returns no error, then the handler returns, the calls are that error's code followed by
  the encoder's writes, the status sent is that code and the body is the encoder's
  serialization of the message string. What the JSON encoder writes for that string is
  the message as a JSON string literal and a newline: neither an object with a
  \<^verbatim>\<open>message\<close> field nor the encoding of the error value.
\<close>

theorem Handle_validate_useCase_external:
  fixes R :: "('hr, 'req) Request" and useCase :: "('ctx, 'req, 'resp) UseCaseFunc"
    and xs :: "('resp, 'l) setting list"
  assumes b: "Bind R zero r = (req, None)"
    and f: "Validate R req = Some err \<or>
            (Validate R req = None \<and> snd (useCase (Context r) req) = Some err)"
    and a: "As err = (Some x, True)" and n: "\<not> isInternal x"
    and e: "configured_encoder mr xs w' (AnyString (message x)) = (ws, None)"
  shows "\<exists>s. Handle mr R zero Context useCase (map option_of xs) id' w' r = Some s
       \<and> calls s = WriteHeader (code x) # map Write ws
       \<and> status_sent (calls s) = code x
       \<and> body_of (calls s) = concat ws
       \<and> JsonEncoder mr w' (AnyString (message x)) =
            ([appendString (message x) @ [CHR 0x0A]],
             w' (appendString (message x) @ [CHR 0x0A]))"
proof -
  note h = applyOptions_configured(2) applyOptions_configured(3)
  from f show ?thesis
  proof
    assume v: "Validate R req = Some err"
    show ?thesis
      by (simp add: Handle_def Let_def body_of_Write JsonEncoder_String
          handlerFunc_validate_external [where useCase = useCase and Context = Context,
            OF h b v a n e])
  next
    assume "Validate R req = None \<and> snd (useCase (Context r) req) = Some err"
    then obtain response where v: "Validate R req = None"
      and u: "useCase (Context r) req = (response, Some err)"
      by (cases "useCase (Context r) req") auto
    show ?thesis
      by (simp add: Handle_def Let_def body_of_Write JsonEncoder_String
          handlerFunc_useCase_external [where useCase = useCase and Context = Context,
            OF h b v u a n e])
  qed
qed

text \<open>
  The theorem at a validation error that wraps the classified error (external, 422, bad),
  with \<^verbatim>\<open>WithEncoder(nil)\<close> followed by \<^verbatim>\<open>WithEncoder\<close> of an encoder that writes a string
  between \<^verbatim>\<open><string>\<close> tags.
\<close>

theorem Handle_validate_useCase_external_witness:
  "\<exists>s. Handle (\<lambda>_ :: unit. Inr [])
        \<lparr>Bind = (\<lambda>req (r :: unit). (req, None)),
         Validate = (\<lambda>req. Some (Wrap ''validate: bad'' (Classified (errorsx_New False 422 ''bad'')))),
         String = (\<lambda>_. [])\<rparr>
        () (\<lambda>_ :: unit. ()) (\<lambda>_ _. ((), None))
        [WithEncoder None,
         WithEncoder (Some (XmlEncoder (\<lambda>e v. case v of
            AnyString m \<Rightarrow> ([''<string>'' @ m @ ''</string>''], None)
          | _ \<Rightarrow> ([], None)))),
         WithSuccessCode 201 :: (unit, unit) Option]
        ''id'' (\<lambda>_. None) () = Some s
     \<and> status_sent (calls s) = 422
     \<and> calls s = [WriteHeader 422, Write ''<string>bad</string>'']"
  using Handle_validate_useCase_external [where R = "\<lparr>Bind = (\<lambda>req (r :: unit). (req, None)),
       Validate = (\<lambda>req. Some (Wrap ''validate: bad'' (Classified (errorsx_New False 422 ''bad'')))),
       String = (\<lambda>_. [])\<rparr>" and zero = "()" and r = "()" and req = "()"
      and err = "Wrap ''validate: bad'' (Classified (errorsx_New False 422 ''bad''))"
      and x = "\<lparr>code = 422, isInternal = False, message = ''bad''\<rparr>"
      and useCase = "\<lambda>_ _. ((), None)" and Context = "\<lambda>_ :: unit. ()"
      and mr = "\<lambda>_ :: unit. Inr []"
      and xs = "[AnEncoder None,
         AnEncoder (Some (XmlEncoder (\<lambda>e v. case v of
            AnyString m \<Rightarrow> ([''<string>'' @ m @ ''</string>''], None)
          | _ \<Rightarrow> ([], None)))),
         SuccessCode 201 :: (unit, unit) setting]"
      and ws = "[''<string>bad</string>'']"
      and id' = "''id''" and w' = "\<lambda>_. None"]
  by (auto simp: As_def errorsx_New_def configured_encoder_def XmlEncoder_def)

text \<open>
  C4, counterexample. With no options and a validation error (external, 400, bad), the
  body is the JSON string \<^verbatim>\<open>"bad"\<close> and a newline, while the JSON encoder's output for the
  error value itself is \<^verbatim>\<open>{}\<close> and a newline.
\<close>

theorem Handle_validate_body_not_raw_error:
  "\<exists>s. Handle (\<lambda>_ :: unit. Inr [])
        \<lparr>Bind = (\<lambda>req (r :: unit). (req, None)),
         Validate = (\<lambda>req. Some (Classified (errorsx_New False 400 ''bad''))),
         String = (\<lambda>_. [])\<rparr>
        () (\<lambda>_ :: unit. ()) (\<lambda>_ _. ((), None)) ([] :: (unit, unit) Option list)
        ''id'' (\<lambda>_. None) () = Some s
     \<and> body_of (calls s) = [CHR 0x22] @ ''bad'' @ [CHR 0x22, CHR 0x0A]
     \<and> concat (fst (JsonEncoder (\<lambda>_ :: unit. Inr []) (\<lambda>_. None)
           (AnyErrorx (errorsx_New False 400 ''bad'')))) = ''{}'' @ [CHR 0x0A]
     \<and> body_of (calls s) \<noteq>
         concat (fst (JsonEncoder (\<lambda>_ :: unit. Inr []) (\<lambda>_. None)
           (AnyErrorx (errorsx_New False 400 ''bad''))))"
proof -
  let ?mr = "\<lambda>_ :: unit. Inr [] :: error + string"
  let ?R = "\<lparr>Bind = (\<lambda>req (r :: unit). (req, None)),
         Validate = (\<lambda>req. Some (Classified (errorsx_New False 400 ''bad''))),
         String = (\<lambda>_. [])\<rparr> :: (unit, unit) Request"
  let ?h = "applyOptions ?mr ([] :: (unit, unit) Option list)"
  have h: "encoder ?h = Some (JsonEncoder ?mr)" "logger ?h = Some slogx_New"
    by (simp_all add: applyOptions_def)
  have a: "As (Classified (errorsx_New False 400 ''bad'')) =
      (Some \<lparr>code = 400, isInternal = False, message = ''bad''\<rparr>, True)"
    by (simp add: As_def errorsx_New_def)
  have q: "appendString ''bad'' = [CHR 0x22] @ ''bad'' @ [CHR 0x22]"
    by (simp add: appendString_def json_escape_def)
  have e: "JsonEncoder ?mr (\<lambda>_. None)
      (AnyString (message \<lparr>code = 400, isInternal = False, message = ''bad''\<rparr>)) =
      ([[CHR 0x22] @ ''bad'' @ [CHR 0x22, CHR 0x0A]], None)"
    by (simp add: JsonEncoder_String q)
  have run: "handlerFunc ?R () (\<lambda>_ :: unit. ()) (\<lambda>_ _. ((), None)) ?h ''id'' (\<lambda>_. None) () =
      Some \<lparr>calls = WriteHeader (code \<lparr>code = 400, isInternal = False, message = ''bad''\<rparr>) #
              map Write [[CHR 0x22] @ ''bad'' @ [CHR 0x22, CHR 0x0A]] @
              (case None :: error option of None \<Rightarrow> []
               | Some e \<Rightarrow> http_Error_calls StatusText_InternalServerError http_StatusInternalServerError),
          logs = Record LevelInfo ''id'' ''request'' (ARequest ()) #
             Record LevelError ''id'' ''failed to validate request''
               (AnError (Classified (Some \<lparr>code = 400, isInternal = False, message = ''bad''\<rparr>))) #
             (case None :: error option of None \<Rightarrow> []
              | Some e \<Rightarrow> [Record LevelError ''id'' ''failed to write error response'' (AnError e)])\<rparr>"
    by (rule handlerFunc_validate_external [OF h _ _ a _ e]) simp_all
  show ?thesis
    unfolding Handle_def Let_def run
    by (simp add: errorsx_New_def JsonEncoder_Errorx)
qed

section \<open>The health handler\<close>

text \<open>
  C8. For every context and every \<^verbatim>\<open>DefaultRequest\<close>, \<^verbatim>\<open>Health\<close> returns the response with
  message OK and a nil error. A handler made from it with no options, for a request type
  with \<^verbatim>\<open>DefaultRequest\<close>'s \<^verbatim>\<open>Bind\<close> and \<^verbatim>\<open>Validate\<close> and any \<^verbatim>\<open>String\<close>, on a response writer
  that accepts the write, answers with the status 200 and the body \<^verbatim>\<open>{"message":"OK"}\<close>,
  which \<^verbatim>\<open>json.Encoder\<close> ends with a newline.
\<close>

theorem Health_OK:
  fixes u :: "'l useCase"
  assumes w: \<open>w' (''{"message":"OK"}'' @ [CHR 0x0A]) = None\<close>
  shows \<open>Health u ctx request = ([''Health check''], \<lparr>Message = ''OK''\<rparr>, None)
     \<and> (\<exists>s. Handle marshal_DefaultResponse
            \<lparr>Bind = DefaultRequest_Bind, Validate = DefaultRequest_Validate, String = str\<rparr>
            DefaultRequest Context (Health_UseCaseFunc u) ([] :: (DefaultResponse, 'l) Option list)
            id' w' r = Some s
        \<and> calls s = [WriteHeader 200, Write (''{"message":"OK"}'' @ [CHR 0x0A])]
        \<and> status_sent (calls s) = 200
        \<and> body_of (calls s) = ''{"message":"OK"}'' @ [CHR 0x0A])\<close>
proof -
  have q: "appendString ''OK'' = [CHR 0x22] @ ''OK'' @ [CHR 0x22]"
    by (simp add: appendString_def json_escape_def)
  have m: \<open>marshal_DefaultResponse \<lparr>Message = ''OK''\<rparr> = Inr ''{"message":"OK"}''\<close>
    by (simp add: marshal_DefaultResponse_def json_Marshal_def q)
  let ?h = "applyOptions marshal_DefaultResponse ([] :: (DefaultResponse, 'l) Option list)"
  have h: "encoder ?h = Some (JsonEncoder marshal_DefaultResponse)" "logger ?h = Some slogx_New"
    and sc: "successCode ?h = 200"
    by (simp_all add: applyOptions_def http_StatusOK_def)
  have e: \<open>JsonEncoder marshal_DefaultResponse w' (AnyResp \<lparr>Message = ''OK''\<rparr>) =
      ([''{"message":"OK"}'' @ [CHR 0x0A]], None)\<close>
    using w by (simp add: JsonEncoder_Resp m)
  have run: \<open>handlerFunc \<lparr>Bind = DefaultRequest_Bind, Validate = DefaultRequest_Validate,
        String = str\<rparr> DefaultRequest Context (Health_UseCaseFunc u) ?h id' w' r =
      Some \<lparr>calls = WriteHeader (successCode ?h) # map Write [''{"message":"OK"}'' @ [CHR 0x0A]],
          logs = [Record LevelInfo id' ''request'' (ARequest DefaultRequest),
                  Record LevelInfo id' ''response'' (AResponse \<lparr>Message = ''OK''\<rparr>)]\<rparr>\<close>
    by (rule handlerFunc_success [OF h _ _ _ e])
       (simp_all add: DefaultRequest_Bind_def DefaultRequest_Validate_def Health_UseCaseFunc_def
          Health_def)
  show ?thesis
    by (simp add: Health_def Handle_def Let_def run sc)
qed

text \<open>
  The theorem at a writer that accepts every write.
\<close>

theorem Health_OK_witness:
  \<open>Health (health_New (slogx_New :: unit Logger)) () DefaultRequest =
       ([''Health check''], \<lparr>Message = ''OK''\<rparr>, None)
     \<and> (\<exists>s. Handle marshal_DefaultResponse
            \<lparr>Bind = DefaultRequest_Bind, Validate = DefaultRequest_Validate, String = (\<lambda>_. ''{}'')\<rparr>
            DefaultRequest (\<lambda>_ :: unit. ()) (Health_UseCaseFunc (health_New (slogx_New :: unit Logger)))
            ([] :: (DefaultResponse, unit) Option list) ''id'' (\<lambda>_. None) () = Some s
        \<and> calls s = [WriteHeader 200, Write (''{"message":"OK"}'' @ [CHR 0x0A])])\<close>
  using Health_OK [where w' = "\<lambda>_. None" and u = "health_New (slogx_New :: unit Logger)"
      and ctx = "()" and request = DefaultRequest and str = "\<lambda>_. ''{}''" and Context = "\<lambda>_ :: unit. ()"
      and id' = "''id''" and r = "()"]
  by auto

section \<open>Internal and unclassified errors\<close>

text \<open>
  An error for which the guard is false without a panic, that is, one that is classified
  internal or not classified at all, at the bind, validate or business-logic stage: the
  handler returns, the status sent is 500, and the calls are fixed by the stage and by what
  the encoder does with the generic message alone. After a bind failure they are the status
  500, the encoder's writes for \<^verbatim>\<open>DefaultResponse{Message: "Internal Server Error"}\<close> and, if
  the encoder returned an error, the calls of \<^verbatim>\<open>http.Error\<close>; after the two later stages
  they are the calls of \<^verbatim>\<open>http.Error\<close> with the generic text and 500. Nothing of the error
  enters them.
\<close>

lemma Handle_internal_error:
  fixes R :: "('hr, 'req) Request" and useCase :: "('ctx, 'req, 'resp) UseCaseFunc"
  assumes i: "is_external (As err) = Some False"
    and stage: "Bind R zero r = (req, Some err)
      \<or> (Bind R zero r = (req, None) \<and> Validate R req = Some err)
      \<or> (Bind R zero r = (req, None) \<and> Validate R req = None
           \<and> snd (useCase (Context r) req) = Some err)"
  shows "\<exists>s enc ws eerr. Handle mr R zero Context useCase options id' w' r = Some s
     \<and> encoder (applyOptions mr options) = Some enc
     \<and> enc w' (AnyDefaultResponse \<lparr>Message = StatusText_InternalServerError\<rparr>) = (ws, eerr)
     \<and> status_sent (calls s) = 500
     \<and> calls s =
         (case snd (Bind R zero r) of
            Some _ \<Rightarrow>
              WriteHeader 500 # map Write ws @
                (case eerr of None \<Rightarrow> []
                 | Some _ \<Rightarrow> http_Error_calls ''Internal Server Error'' 500)
          | None \<Rightarrow> http_Error_calls ''Internal Server Error'' 500)"
proof -
  let ?h = "applyOptions mr options"
  obtain enc l where h: "encoder ?h = Some enc" "logger ?h = Some l"
    using applyOptions_nonnil by blast
  obtain ws eerr where e: "enc w' (AnyDefaultResponse \<lparr>Message = StatusText_InternalServerError\<rparr>) = (ws, eerr)"
    by (cases "enc w' (AnyDefaultResponse \<lparr>Message = StatusText_InternalServerError\<rparr>)")
  note codes = http_StatusInternalServerError_def StatusText_InternalServerError_def
  from stage consider
      (bind) "Bind R zero r = (req, Some err)"
    | (validate) "Bind R zero r = (req, None)" "Validate R req = Some err"
    | (useCase) "Bind R zero r = (req, None)" "Validate R req = None"
        "snd (useCase (Context r) req) = Some err"
    by argo
  then have "\<exists>s. handlerFunc R zero Context useCase ?h id' w' r = Some s
     \<and> status_sent (calls s) = 500
     \<and> calls s =
         (case snd (Bind R zero r) of
            Some _ \<Rightarrow>
              WriteHeader 500 # map Write ws @
                (case eerr of None \<Rightarrow> []
                 | Some _ \<Rightarrow> http_Error_calls ''Internal Server Error'' 500)
          | None \<Rightarrow> http_Error_calls ''Internal Server Error'' 500)"
  proof cases
    case bind
    show ?thesis
      using e
      by (simp add: handlerFunc_bind_internal [where useCase = useCase and Context = Context,
            OF h bind i e] bind)
         (simp add: codes split: option.splits)
  next
    case validate
    show ?thesis
      by (simp add: handlerFunc_validate_internal [where useCase = useCase and Context = Context,
            OF h validate i] validate status_sent_Error)
         (simp add: codes)
  next
    case useCase
    then obtain response where u: "useCase (Context r) req = (response, Some err)"
      by (cases "useCase (Context r) req") auto
    show ?thesis
      by (simp add: handlerFunc_useCase_internal [where useCase = useCase and Context = Context,
            OF h useCase(1,2) u i] useCase status_sent_Error)
         (simp add: codes)
  qed
  with h e show ?thesis
    by (auto simp: Handle_def Let_def)
qed

text \<open>
  At a validation error that wraps a classified internal error.
\<close>

lemma Handle_internal_error_example:
  "\<exists>s. Handle (\<lambda>_ :: unit. Inr [])
        \<lparr>Bind = (\<lambda>req (r :: unit). (req, None)),
         Validate = (\<lambda>req. Some (Wrap ''query failed''
            (Classified (errorsx_New True 409 ''password=hunter2'')))),
         String = (\<lambda>_. [])\<rparr>
        () (\<lambda>_ :: unit. ()) (\<lambda>_ _. ((), None)) ([] :: (unit, unit) Option list)
        ''id'' (\<lambda>_. None) () = Some s
     \<and> status_sent (calls s) = 500
     \<and> calls s = http_Error_calls ''Internal Server Error'' 500"
proof -
  let ?err = "Wrap ''query failed'' (Classified (errorsx_New True 409 ''password=hunter2''))"
  have i: "is_external (As ?err) = Some False"
    by (simp add: is_external_def As_def Errorx_Internal_def errorsx_New_def)
  show ?thesis
    using Handle_internal_error [where R = "\<lparr>Bind = (\<lambda>req (r :: unit). (req, None)),
         Validate = (\<lambda>req. Some ?err), String = (\<lambda>_. [])\<rparr>" and zero = "()" and r = "()"
        and req = "()" and err = ?err
        and useCase = "\<lambda>_ _. ((), None)" and Context = "\<lambda>_ :: unit. ()"
        and mr = "\<lambda>_ :: unit. Inr []" and options = "[] :: (unit, unit) Option list"
        and id' = "''id''" and w' = "\<lambda>_. None", OF i]
    by auto
qed

text \<open>
  C2, at the response-encoding stage. With \<^verbatim>\<open>WithSuccessCode(201)\<close>, a request that binds
  and validates and a use case whose response \<^verbatim>\<open>encoding/json\<close> cannot marshal, the error
  being unclassified: the handler has written 201 before it encodes, so the calls of
  \<^verbatim>\<open>http.Error\<close> with 500 come second and the status sent is 201, not 500.
\<close>

theorem Handle_encode_failure_status:
  "\<exists>s. Handle (\<lambda>_ :: unit. Inl (Opaque ''json: unsupported value''))
        \<lparr>Bind = DefaultRequest_Bind, Validate = DefaultRequest_Validate, String = (\<lambda>_. [])\<rparr>
        DefaultRequest (\<lambda>_ :: unit. ()) (\<lambda>_ _. ((), None))
        ([WithSuccessCode 201] :: (unit, unit) Option list)
        ''id'' (\<lambda>_. None) () = Some s
     \<and> calls s =
         [WriteHeader 201,
          Header_Del ''Content-Length'',
          Header_Set ''Content-Type'' ''text/plain; charset=utf-8'',
          Header_Set ''X-Content-Type-Options'' ''nosniff'',
          WriteHeader 500,
          Write (''Internal Server Error'' @ [CHR 0x0A])]
     \<and> status_sent (calls s) = 201
     \<and> status_sent (calls s) \<noteq> 500"
proof -
  let ?mr = "\<lambda>_ :: unit. Inl (Opaque ''json: unsupported value'') :: error + string"
  let ?h = "applyOptions ?mr ([WithSuccessCode 201] :: (unit, unit) Option list)"
  have h: "encoder ?h = Some (JsonEncoder ?mr)" "logger ?h = Some slogx_New"
    and sc: "successCode ?h = 201"
    by (simp_all add: applyOptions_def WithSuccessCode_def)
  have e: "JsonEncoder ?mr (\<lambda>_. None) (AnyResp ()) = ([], Some (Opaque ''json: unsupported value''))"
    by (simp add: JsonEncoder_Resp)
  have run: "handlerFunc \<lparr>Bind = DefaultRequest_Bind, Validate = DefaultRequest_Validate,
        String = (\<lambda>_. [])\<rparr> DefaultRequest (\<lambda>_ :: unit. ()) (\<lambda>_ _. ((), None)) ?h ''id''
        (\<lambda>_. None) () =
      Some \<lparr>calls = WriteHeader (successCode ?h) # map Write [] @
            http_Error_calls StatusText_InternalServerError http_StatusInternalServerError,
          logs = [Record LevelInfo ''id'' ''request'' (ARequest DefaultRequest),
                  Record LevelInfo ''id'' ''response'' (AResponse ())]\<rparr>"
    by (rule handlerFunc_success_encode_internal [OF h _ _ _ e is_external_Opaque])
       (simp_all add: DefaultRequest_Bind_def DefaultRequest_Validate_def)
  show ?thesis
    by (simp add: Handle_def Let_def run sc http_Error_calls_def
        http_StatusInternalServerError_def StatusText_InternalServerError_def)
qed

section \<open>Classified external errors from binding\<close>

lemma hexval_hex_all: "\<forall>k \<in> set [0..<16]. hexval (hex k) = Some k"
  by code_simp

lemma hexval_hex: "k < 16 \<Longrightarrow> hexval (hex k) = Some k"
  using hexval_hex_all by simp

lemma hexval_zero: "hexval (CHR ''0'') = Some 0"
  by (simp add: hexval_def)

lemma unquote_backslash_u:
  "unquote (CHR 0x5C # CHR ''u'' # a # b # x # y # rest) =
     (case getu4 a b x y of
        None \<Rightarrow> None
      | Some n \<Rightarrow>
          (case EncodeRune n of
             None \<Rightarrow> None
           | Some bytes \<Rightarrow> prepend bytes (unquote rest)))"
  by simp

lemma unquote_backslash_named:
  "d \<noteq> CHR ''u'' \<Longrightarrow>
   unquote (CHR 0x5C # d # ds) =
     (case unescape d of None \<Rightarrow> None | Some e \<Rightarrow> prepend [e] (unquote ds))"
  by simp

lemma unquote_ascii:
  "c \<noteq> CHR 0x22 \<Longrightarrow> c \<noteq> CHR 0x5C \<Longrightarrow> \<not> (of_char c :: nat) < 0x20 \<Longrightarrow>
   (of_char c :: nat) < 0x80 \<Longrightarrow> unquote (c # cs) = prepend [c] (unquote cs)"
  by simp

lemma unquote_sequence:
  assumes "\<not> (of_char c :: nat) < 0x80"
  shows "unquote (c # cs) =
     (if rune_size (c # cs) = 0
        then prepend [CHR 0xEF, CHR 0xBF, CHR 0xBD] (unquote cs)
      else prepend (take (rune_size (c # cs)) (c # cs))
             (unquote (drop (rune_size (c # cs) - 1) cs)))"
proof -
  from assms have "c \<noteq> CHR 0x22" "c \<noteq> CHR 0x5C" "\<not> (of_char c :: nat) < 0x20"
    by auto
  with assms show ?thesis
    by simp
qed

lemma unquote_closing: "unquote (CHR 0x22 # tail) = Some ([], tail)"
  by simp

declare unquote.simps [simp del]

lemma escape_quote: "unquote (json_escape (CHR 0x22) @ s) = prepend [CHR 0x22] (unquote s)"
  by (simp add: json_escape_def unquote_backslash_named unescape_def)

lemma escape_backslash: "unquote (json_escape (CHR 0x5C) @ s) = prepend [CHR 0x5C] (unquote s)"
  by (simp add: json_escape_def unquote_backslash_named unescape_def)

lemma escape_named:
  "c = CHR 0x08 \<or> c = CHR 0x0C \<or> c = CHR 0x0A \<or> c = CHR 0x0D \<or> c = CHR 0x09 \<Longrightarrow>
   unquote (json_escape c @ s) = prepend [c] (unquote s)"
  by (auto simp: json_escape_def unquote_backslash_named unescape_def)

lemma escape_plain:
  assumes "c \<noteq> CHR 0x5C" "c \<noteq> CHR 0x22" "\<not> (of_char c :: nat) < 0x20"
    "c \<noteq> CHR ''<''" "c \<noteq> CHR ''>''" "c \<noteq> CHR ''&''" "(of_char c :: nat) < 0x80"
  shows "unquote (json_escape c @ s) = prepend [c] (unquote s)"
proof -
  from assms(3) have "c \<noteq> CHR 0x08" "c \<noteq> CHR 0x0C" "c \<noteq> CHR 0x0A" "c \<noteq> CHR 0x0D" "c \<noteq> CHR 0x09"
    by auto
  with assms have "json_escape c = [c]"
    by (simp add: json_escape_def)
  with assms show ?thesis
    by (simp add: unquote_ascii)
qed

lemma escape_unicode:
  assumes ne: "c \<noteq> CHR 0x5C" "c \<noteq> CHR 0x22" "c \<noteq> CHR 0x08" "c \<noteq> CHR 0x0C" "c \<noteq> CHR 0x0A"
          "c \<noteq> CHR 0x0D" "c \<noteq> CHR 0x09"
    and esc: "(of_char c :: nat) < 0x20 \<or> c = CHR ''<'' \<or> c = CHR ''>'' \<or> c = CHR ''&''"
  shows "unquote (json_escape c @ s) = prepend [c] (unquote s)"
proof -
  define n where "n = (of_char c :: nat)"
  from esc have lt: "n < 128" unfolding n_def by auto
  then have h16: "n div 16 < 16" and l: "n mod 16 < 16" by simp_all
  have c: "char_of n = c" unfolding n_def by simp
  have again: "4096 * 0 + 256 * 0 + 16 * (n div 16) + n mod 16 = n"
    by simp
  from ne esc have e: "json_escape c = [CHR 0x5C, CHR ''u'', CHR ''0'', CHR ''0'', hex (n div 16), hex (n mod 16)]"
    unfolding n_def by (simp add: json_escape_def)
  have hh: "hexval (hex (n div 16)) = Some (n div 16)"
    using h16 by (rule hexval_hex)
  have ll: "hexval (hex (n mod 16)) = Some (n mod 16)"
    using l by (rule hexval_hex)
  have g: "getu4 (CHR ''0'') (CHR ''0'') (hex (n div 16)) (hex (n mod 16)) = Some n"
    unfolding getu4_def by (simp only: hexval_zero hh ll option.case again)
  have r: "EncodeRune n = Some [c]"
    using lt c by (simp add: EncodeRune_def)
  have "unquote (json_escape c @ s) =
      unquote (CHR 0x5C # CHR ''u'' # CHR ''0'' # CHR ''0'' # hex (n div 16) # hex (n mod 16) # s)"
    by (simp add: e)
  also have "\<dots> = prepend [c] (unquote s)"
    unfolding unquote_backslash_u by (simp only: g r option.case)
  finally show ?thesis .
qed

lemma unquote_escape:
  assumes a: "(of_char c :: nat) < 0x80"
  shows "unquote (json_escape c @ s) = prepend [c] (unquote s)"
proof (cases "c = CHR 0x22")
  case True
  then show ?thesis by (simp only: escape_quote)
next
  case q: False
  show ?thesis
  proof (cases "c = CHR 0x5C")
    case True
    then show ?thesis by (simp only: escape_backslash)
  next
    case b: False
    show ?thesis
    proof (cases "c = CHR 0x08 \<or> c = CHR 0x0C \<or> c = CHR 0x0A \<or> c = CHR 0x0D \<or> c = CHR 0x09")
      case True
      then show ?thesis by (rule escape_named)
    next
      case n: False
      show ?thesis
      proof (cases "(of_char c :: nat) < 0x20 \<or> c = CHR ''<'' \<or> c = CHR ''>'' \<or> c = CHR ''&''")
        case True
        with q b n show ?thesis by (intro escape_unicode) blast+
      next
        case False
        with q b a show ?thesis by (intro escape_plain) blast+
      qed
    qed
  qed
qed

lemma rune_size_two:
  "0xC2 \<le> (of_char b0 :: nat) \<Longrightarrow> (of_char b0 :: nat) \<le> 0xDF \<Longrightarrow>
   rune_size (b0 # t) = (case t of b1 # _ \<Rightarrow> if continuation b1 then 2 else 0 | _ \<Rightarrow> 0)"
  by (simp add: rune_size_def)

lemma rune_size_three:
  "0xE0 \<le> (of_char b0 :: nat) \<Longrightarrow> (of_char b0 :: nat) \<le> 0xEF \<Longrightarrow>
   rune_size (b0 # t) =
     (case t of b1 # b2 # _ \<Rightarrow> if second_ok b0 b1 \<and> continuation b2 then 3 else 0 | _ \<Rightarrow> 0)"
  by (simp add: rune_size_def)

lemma rune_size_four:
  "0xF0 \<le> (of_char b0 :: nat) \<Longrightarrow> (of_char b0 :: nat) \<le> 0xF4 \<Longrightarrow>
   rune_size (b0 # t) =
     (case t of b1 # b2 # b3 # _ \<Rightarrow>
        if second_ok b0 b1 \<and> continuation b2 \<and> continuation b3 then 4 else 0 | _ \<Rightarrow> 0)"
  by (simp add: rune_size_def)

lemma rune_size_none:
  "(of_char b0 :: nat) < 0xC2 \<or> 0xF4 < (of_char b0 :: nat) \<Longrightarrow> rune_size (b0 # t) = 0"
  by (auto simp: rune_size_def)

lemma rune_size_Nil: "rune_size [] = 0"
  by (simp add: rune_size_def)

lemma rune_size_range:
  obtains (none) "rune_size (b0 # t) = 0"
  | (two) "0xC2 \<le> (of_char b0 :: nat)" "(of_char b0 :: nat) \<le> 0xDF"
  | (three) "0xE0 \<le> (of_char b0 :: nat)" "(of_char b0 :: nat) \<le> 0xEF"
  | (four) "0xF0 \<le> (of_char b0 :: nat)" "(of_char b0 :: nat) \<le> 0xF4"
proof -
  consider (a) "(of_char b0 :: nat) < 0xC2 \<or> 0xF4 < (of_char b0 :: nat)"
    | (b) "0xC2 \<le> (of_char b0 :: nat)" "(of_char b0 :: nat) \<le> 0xDF"
    | (c) "0xE0 \<le> (of_char b0 :: nat)" "(of_char b0 :: nat) \<le> 0xEF"
    | (d) "0xF0 \<le> (of_char b0 :: nat)" "(of_char b0 :: nat) \<le> 0xF4"
    by linarith
  then show ?thesis
  proof cases
    case a
    then have "rune_size (b0 # t) = 0" by (rule rune_size_none)
    then show ?thesis by (rule none)
  next
    case b
    then show ?thesis by (rule two)
  next
    case c
    then show ?thesis by (rule three)
  next
    case d
    then show ?thesis by (rule four)
  qed
qed

lemma rune_size_le: "rune_size s \<le> length s"
proof (cases s)
  case Nil
  then show ?thesis by (simp add: rune_size_Nil)
next
  case (Cons b0 t)
  show ?thesis
  proof (cases rule: rune_size_range [of b0 t])
    case none
    then show ?thesis using Cons by simp
  next
    case two
    then show ?thesis unfolding Cons by (simp add: rune_size_two split: list.splits)
  next
    case three
    then show ?thesis unfolding Cons by (simp add: rune_size_three split: list.splits)
  next
    case four
    then show ?thesis unfolding Cons by (simp add: rune_size_four split: list.splits)
  qed
qed

lemma rune_size_prefix:
  assumes pos: "0 < rune_size s"
  shows "rune_size (take (rune_size s) s @ rest) = rune_size s"
proof (cases s)
  case Nil
  with pos show ?thesis by (simp add: rune_size_Nil)
next
  case (Cons b0 t)
  show ?thesis
  proof (cases rule: rune_size_range [of b0 t])
    case none
    with pos Cons show ?thesis by simp
  next
    case two
    with pos Cons obtain b1 r where t: "t = b1 # r" and c: "continuation b1"
      by (auto simp: rune_size_two split: list.splits if_splits)
    show ?thesis
      unfolding Cons t using two c by (simp add: rune_size_two)
  next
    case three
    with pos Cons obtain b1 b2 r where t: "t = b1 # b2 # r"
      and c: "second_ok b0 b1" "continuation b2"
      by (auto simp: rune_size_three split: list.splits if_splits)
    show ?thesis
      unfolding Cons t using three c by (simp add: rune_size_three)
  next
    case four
    with pos Cons obtain b1 b2 b3 r where t: "t = b1 # b2 # b3 # r"
      and c: "second_ok b0 b1" "continuation b2" "continuation b3"
      by (auto simp: rune_size_four split: list.splits if_splits)
    show ?thesis
      unfolding Cons t using four c by (simp add: rune_size_four)
  qed
qed

lemma rune_size_2028: "rune_size (CHR 0xE2 # CHR 0x80 # c # r) = (if continuation c then 3 else 0)"
  by (simp add: rune_size_def second_ok_def continuation_def)

lemma getu4_2028: "getu4 (CHR ''2'') (CHR ''0'') (CHR ''2'') (CHR ''8'') = Some 0x2028"
  by (simp add: getu4_def hexval_def)

lemma getu4_2029: "getu4 (CHR ''2'') (CHR ''0'') (CHR ''2'') (CHR ''9'') = Some 0x2029"
  by (simp add: getu4_def hexval_def)

lemma char_of_E2: "char_of (226 :: nat) = CHR 0xE2"
  using char_of_char [of "CHR 0xE2"] by simp

lemma char_of_80: "char_of (128 :: nat) = CHR 0x80"
  using char_of_char [of "CHR 0x80"] by simp

lemma char_of_A8: "char_of (168 :: nat) = CHR 0xA8"
  using char_of_char [of "CHR 0xA8"] by simp

lemma char_of_A9: "char_of (169 :: nat) = CHR 0xA9"
  using char_of_char [of "CHR 0xA9"] by simp

lemma EncodeRune_2028: "EncodeRune 0x2028 = Some [CHR 0xE2, CHR 0x80, CHR 0xA8]"
  by (simp add: EncodeRune_def char_of_E2 char_of_80 char_of_A8)

lemma EncodeRune_2029: "EncodeRune 0x2029 = Some [CHR 0xE2, CHR 0x80, CHR 0xA9]"
  by (simp add: EncodeRune_def char_of_E2 char_of_80 char_of_A9)

lemma unquote_2028:
  "unquote (CHR 0x5C # ''u2028'' @ s) = prepend [CHR 0xE2, CHR 0x80, CHR 0xA8] (unquote s)"
  by (simp add: unquote_backslash_u getu4_2028 EncodeRune_2028)

lemma unquote_2029:
  "unquote (CHR 0x5C # ''u2029'' @ s) = prepend [CHR 0xE2, CHR 0x80, CHR 0xA9] (unquote s)"
  by (simp add: unquote_backslash_u getu4_2029 EncodeRune_2029)

lemma take3_shape:
  assumes "take 3 (b # bs) = [x, y, z]"
  shows "\<exists>r. b # bs = x # y # z # r"
proof (cases bs)
  case Nil
  with assms show ?thesis by simp
next
  case c: (Cons c cs)
  show ?thesis
  proof (cases cs)
    case Nil
    with assms c show ?thesis by simp
  next
    case (Cons d ds)
    with assms c show ?thesis by simp
  qed
qed

lemma take3_drop2:
  assumes "take 3 (b # bs) = [x, y, z]"
  shows "[x, y, z] @ drop 2 bs = b # bs"
proof -
  from take3_shape [OF assms] obtain r where "b # bs = x # y # z # r" ..
  then have "bs = y # z # r" and "b = x"
    by simp_all
  then show ?thesis
    by simp
qed

lemma rune_size_separator:
  assumes "take 3 (b # bs) = [CHR 0xE2, CHR 0x80, c]" "c = CHR 0xA8 \<or> c = CHR 0xA9"
  shows "rune_size (b # bs) = 3"
proof -
  from take3_shape [OF assms(1)] obtain r where s: "b # bs = CHR 0xE2 # CHR 0x80 # c # r" ..
  from assms(2) have "continuation c"
    by (auto simp: continuation_def)
  then have "rune_size (CHR 0xE2 # CHR 0x80 # c # r) = 3"
    by (simp add: rune_size_2028)
  then show ?thesis
    by (simp only: s)
qed

lemma unquote_copied:
  assumes hi: "\<not> (of_char b :: nat) < 0x80" and pos: "0 < rune_size (b # bs)"
  shows "unquote (take (rune_size (b # bs)) (b # bs) @ s) =
     prepend (take (rune_size (b # bs)) (b # bs)) (unquote s)"
proof -
  let ?n = "rune_size (b # bs)"
  from pos obtain k where k: "?n = Suc k"
    by (cases ?n) auto
  have len: "k \<le> length bs"
    using rune_size_le [of "b # bs"] k by simp
  have shape: "take ?n (b # bs) @ s = b # (take k bs @ s)"
    by (simp add: k)
  have size: "rune_size (b # (take k bs @ s)) = Suc k"
    using rune_size_prefix [OF pos, of s] by (simp add: k)
  have "unquote (b # (take k bs @ s)) =
      prepend (take (Suc k) (b # (take k bs @ s))) (unquote (drop k (take k bs @ s)))"
    by (simp add: unquote_sequence [OF hi] size)
  also have "take (Suc k) (b # (take k bs @ s)) = take ?n (b # bs)"
    using len by (simp add: k)
  also have "drop k (take k bs @ s) = s"
    using len by simp
  finally show ?thesis
    by (simp only: shape)
qed

lemma unquote_quoted:
  "valid_utf8 m \<Longrightarrow> unquote (escape_from m @ CHR 0x22 # tail) = Some (m, tail)"
proof (induction m rule: valid_utf8.induct)
  case 1
  show ?case by (simp add: unquote_closing)
next
  case (2 b bs)
  show ?case
  proof (cases "(of_char b :: nat) < 0x80")
    case True
    with "2.prems" have "valid_utf8 bs" by simp
    with True "2.IH"(1) have ih: "unquote (escape_from bs @ CHR 0x22 # tail) = Some (bs, tail)"
      by simp
    have "unquote (escape_from (b # bs) @ CHR 0x22 # tail) =
        unquote (json_escape b @ (escape_from bs @ CHR 0x22 # tail))"
      using True by simp
    also have "\<dots> = prepend [b] (Some (bs, tail))"
      by (simp only: unquote_escape [OF True] ih)
    finally show ?thesis by (simp add: prepend_def)
  next
    case False
    let ?n = "rune_size (b # bs)"
    let ?rest = "drop (?n - 1) bs"
    from False "2.prems" have pos: "0 < ?n" and v: "valid_utf8 ?rest"
      by simp_all
    from pos have nz: "?n \<noteq> 0"
      by simp
    from False v "2.IH"(2) have ih: "unquote (escape_from ?rest @ CHR 0x22 # tail) = Some (?rest, tail)"
      by simp
    have whole: "take ?n (b # bs) @ ?rest = b # bs"
      using pos by (cases ?n) simp_all
    show ?thesis
    proof (cases "take 3 (b # bs) = [CHR 0xE2, CHR 0x80, CHR 0xA8]")
      case True
      then have n3: "?n = 3"
        by (rule rune_size_separator) simp
      have "unquote (escape_from (b # bs) @ CHR 0x22 # tail) =
          unquote (CHR 0x5C # ''u2028'' @ (escape_from (drop 2 bs) @ CHR 0x22 # tail))"
        by (simp only: escape_from.simps False nz True if_False if_True) simp
      also have "\<dots> = prepend [CHR 0xE2, CHR 0x80, CHR 0xA8] (Some (drop 2 bs, tail))"
        using ih by (simp only: unquote_2028) (simp add: n3)
      finally show ?thesis
        using take3_drop2 [OF True] by (simp add: prepend_def)
    next
      case n28: False
      show ?thesis
      proof (cases "take 3 (b # bs) = [CHR 0xE2, CHR 0x80, CHR 0xA9]")
        case True
        then have n3: "?n = 3"
          by (rule rune_size_separator) simp
        have "unquote (escape_from (b # bs) @ CHR 0x22 # tail) =
            unquote (CHR 0x5C # ''u2029'' @ (escape_from (drop 2 bs) @ CHR 0x22 # tail))"
          by (simp only: escape_from.simps False nz True n28 if_False if_True) simp
        also have "\<dots> = prepend [CHR 0xE2, CHR 0x80, CHR 0xA9] (Some (drop 2 bs, tail))"
          using ih by (simp only: unquote_2029) (simp add: n3)
        finally show ?thesis
          using take3_drop2 [OF True] by (simp add: prepend_def)
      next
        case n29: False
        have "escape_from (b # bs) = take ?n (b # bs) @ escape_from ?rest"
          by (simp only: escape_from.simps False nz n28 n29 if_False)
        then have "unquote (escape_from (b # bs) @ CHR 0x22 # tail) =
            unquote (take ?n (b # bs) @ (escape_from ?rest @ CHR 0x22 # tail))"
          by simp
        also have "\<dots> = prepend (take ?n (b # bs)) (Some (?rest, tail))"
          by (simp only: unquote_copied [OF False pos] ih)
        finally show ?thesis
          using whole by (simp add: prepend_def)
      qed
    qed
  qed
qed

lemma strip_prefix_append: "strip_prefix p (p @ s) = Some s"
  by (induction p) simp_all

lemma decode_message_roundtrip:
  assumes "valid_utf8 m"
  shows \<open>decode_message (''{"message":'' @ appendString m @ ''}'' @ [CHR 0x0A]) = Some m\<close>
proof -
  have eq: \<open>''{"message":'' @ appendString m @ ''}'' @ [CHR 0x0A] =
        ''{"message":"'' @ (escape_from m @ CHR 0x22 # (''}'' @ [CHR 0x0A]))\<close>
    by (simp add: appendString_def)
  show ?thesis
    unfolding decode_message_def eq
    by (simp only: strip_prefix_append unquote_quoted [OF assms] option.case prod.case if_True
        simp_thms)
qed

text \<open>
  C3, as amended. The options are any list of \<^verbatim>\<open>WithSuccessCode\<close>, \<^verbatim>\<open>WithEncoder\<close> and
  \<^verbatim>\<open>WithLogger\<close>. When \<^verbatim>\<open>Bind\<close> returns an error for which \<^verbatim>\<open>errorsx.As\<close> returns a non-nil
  \<^verbatim>\<open>*Errorx\<close> that is not internal, the handler returns, and the value handed to the
  configured encoder is \<^verbatim>\<open>DefaultResponse{Message: err.Error()}\<close>. When that \<^verbatim>\<open>Encode\<close>
  returns no error, the calls are that \<^verbatim>\<open>Errorx\<close>'s code followed by the encoder's writes,
  the status sent is that code, the body is what the encoder wrote, and the one record
  logged is the bind failure. When it returns an error, the records logged are the bind
  failure and then the failure to write the error response. What the JSON encoder writes
  for the value is one text, \<^verbatim>\<open>{"message":\<close>, the text of the error as a JSON string literal,
  \<^verbatim>\<open>}\<close> and a newline; when the text of the error is valid UTF-8, it decodes to the message
  object of that text.
\<close>

theorem Handle_bind_external:
  fixes R :: "('hr, 'req) Request" and useCase :: "('ctx, 'req, 'resp) UseCaseFunc"
    and xs :: "('resp, 'l) setting list"
  assumes b: "Bind R zero r = (req, Some err)"
    and a: "As err = (Some x, True)" and n: "\<not> isInternal x"
  shows \<open>\<exists>s t. Handle mr R zero Context useCase (map option_of xs) id' w' r = Some s
     \<and> error_Error err = Some t
     \<and> (case configured_encoder mr xs w' (AnyDefaultResponse \<lparr>Message = t\<rparr>) of
          (ws, None) \<Rightarrow>
            calls s = WriteHeader (code x) # map Write ws
          \<and> status_sent (calls s) = code x
          \<and> body_of (calls s) = concat ws
          \<and> logs s = [Record LevelError id' ''failed to bind request'' (AnError (Classified (Some x)))]
        | (ws, Some e) \<Rightarrow>
            logs s = [Record LevelError id' ''failed to bind request'' (AnError (Classified (Some x))),
                      Record LevelError id' ''failed to write error response'' (AnError e)])
     \<and> JsonEncoder mr w' (AnyDefaultResponse \<lparr>Message = t\<rparr>) =
          ([''{"message":'' @ appendString t @ ''}'' @ [CHR 0x0A]],
           w' (''{"message":'' @ appendString t @ ''}'' @ [CHR 0x0A]))
     \<and> (valid_utf8 t \<longrightarrow>
          decode_message (''{"message":'' @ appendString t @ ''}'' @ [CHR 0x0A]) = Some t)\<close>
proof -
  from a obtain t where t: "error_Error err = Some t"
    using As_found_text by blast
  obtain ws eerr where e: "configured_encoder mr xs w' (AnyDefaultResponse \<lparr>Message = t\<rparr>) = (ws, eerr)"
    by (cases "configured_encoder mr xs w' (AnyDefaultResponse \<lparr>Message = t\<rparr>)")
  let ?s = "\<lparr>calls = WriteHeader (code x) # map Write ws @
             (case eerr of None \<Rightarrow> []
              | Some e \<Rightarrow> http_Error_calls StatusText_InternalServerError http_StatusInternalServerError),
          logs = Record LevelError id' ''failed to bind request'' (AnError (Classified (Some x))) #
             (case eerr of None \<Rightarrow> []
              | Some e \<Rightarrow> [Record LevelError id' ''failed to write error response'' (AnError e)])\<rparr>
          :: ('req, 'resp) exchange"
  have run: "Handle mr R zero Context useCase (map option_of xs) id' w' r = Some ?s"
    unfolding Handle_def Let_def
    by (rule handlerFunc_bind_external [where useCase = useCase and Context = Context,
          OF applyOptions_configured(2) applyOptions_configured(3) b a n t e])
  have shape: "case configured_encoder mr xs w' (AnyDefaultResponse \<lparr>Message = t\<rparr>) of
          (ws, None) \<Rightarrow>
            calls ?s = WriteHeader (code x) # map Write ws
          \<and> status_sent (calls ?s) = code x
          \<and> body_of (calls ?s) = concat ws
          \<and> logs ?s = [Record LevelError id' ''failed to bind request'' (AnError (Classified (Some x)))]
        | (ws, Some e) \<Rightarrow>
            logs ?s = [Record LevelError id' ''failed to bind request'' (AnError (Classified (Some x))),
                      Record LevelError id' ''failed to write error response'' (AnError e)]"
    unfolding e by (cases eerr) (simp_all add: body_of_Write)
  have dec: \<open>valid_utf8 t \<longrightarrow>
      decode_message (''{"message":'' @ appendString t @ ''}'' @ [CHR 0x0A]) = Some t\<close>
    using decode_message_roundtrip by blast
  show ?thesis
    by (rule exI [where x = ?s], rule exI [where x = t])
       (intro conjI run t shape JsonEncoder_DefaultResponse dec)
qed

text \<open>
  The theorem at a bind error that wraps the classified error (external, 400, missing
  field x): once with \<^verbatim>\<open>WithSuccessCode(201)\<close> and \<^verbatim>\<open>WithLogger(nil)\<close>, where the JSON encoder
  writes the body; once with \<^verbatim>\<open>WithEncoder\<close> of an encoder whose \<^verbatim>\<open>Encode\<close> returns an error,
  where the two records are logged.
\<close>

theorem Handle_bind_external_witness:
  \<open>(\<exists>s. Handle (\<lambda>_ :: unit. Inr [])
        \<lparr>Bind = (\<lambda>req (r :: unit).
                  (req, Some (Wrap ''bind: missing field x''
                     (Classified (errorsx_New False 400 ''missing field x''))))),
         Validate = (\<lambda>req. None), String = (\<lambda>_. [])\<rparr>
        () (\<lambda>_ :: unit. ()) (\<lambda>_ _. ((), None))
        [WithSuccessCode 201, WithLogger (None :: unit Logger option)]
        ''id'' (\<lambda>_. None) () = Some s
     \<and> status_sent (calls s) = 400
     \<and> calls s = [WriteHeader 400, Write (''{"message":"bind: missing field x"}'' @ [CHR 0x0A])])
     \<and> decode_message (''{"message":"bind: missing field x"}'' @ [CHR 0x0A]) =
          Some ''bind: missing field x''
     \<and> (\<exists>s. Handle (\<lambda>_ :: unit. Inr [])
        \<lparr>Bind = (\<lambda>req (r :: unit).
                  (req, Some (Wrap ''bind: missing field x''
                     (Classified (errorsx_New False 400 ''missing field x''))))),
         Validate = (\<lambda>req. None), String = (\<lambda>_. [])\<rparr>
        () (\<lambda>_ :: unit. ()) (\<lambda>_ _. ((), None))
        [WithEncoder (Some (XmlEncoder (\<lambda>e v. ([], Some (Opaque ''xml: unsupported type''))))),
         WithLogger (None :: unit Logger option)]
        ''id'' (\<lambda>_. None) () = Some s
     \<and> logs s =
         [Record LevelError ''id'' ''failed to bind request''
            (AnError (Classified (errorsx_New False 400 ''missing field x''))),
          Record LevelError ''id'' ''failed to write error response''
            (AnError (Opaque ''xml: unsupported type''))])\<close>
proof -
  let ?err = "Wrap ''bind: missing field x'' (Classified (errorsx_New False 400 ''missing field x''))"
  let ?x = "\<lparr>code = 400, isInternal = False, message = ''missing field x''\<rparr>"
  let ?R = "\<lparr>Bind = (\<lambda>req (r :: unit). (req, Some ?err)),
         Validate = (\<lambda>req. None), String = (\<lambda>_. [])\<rparr> :: (unit, unit) Request"
  have q: "appendString ''bind: missing field x'' = [CHR 0x22] @ ''bind: missing field x'' @ [CHR 0x22]"
    by (simp add: appendString_def json_escape_def)
  have a: "As ?err = (Some ?x, True)"
    by (simp add: As_def errorsx_New_def)
  have one: \<open>\<exists>s. Handle (\<lambda>_ :: unit. Inr []) ?R () (\<lambda>_ :: unit. ()) (\<lambda>_ _. ((), None))
        [WithSuccessCode 201, WithLogger (None :: unit Logger option)]
        ''id'' (\<lambda>_. None) () = Some s
     \<and> status_sent (calls s) = 400
     \<and> calls s = [WriteHeader 400, Write (''{"message":"bind: missing field x"}'' @ [CHR 0x0A])]\<close>
    using Handle_bind_external [where R = ?R and zero = "()" and r = "()" and req = "()"
        and err = ?err and x = ?x
        and useCase = "\<lambda>_ _. ((), None)" and Context = "\<lambda>_ :: unit. ()"
        and mr = "\<lambda>_ :: unit. Inr []"
        and xs = "[SuccessCode 201, ALogger (None :: unit Logger option)]"
        and id' = "''id''" and w' = "\<lambda>_. None", OF _ a]
    by (auto simp: configured_encoder_def JsonEncoder_DefaultResponse q)
  have two: \<open>decode_message (''{"message":"bind: missing field x"}'' @ [CHR 0x0A]) =
          Some ''bind: missing field x''\<close>
    using Handle_bind_external [where R = ?R and zero = "()" and r = "()" and req = "()"
        and err = ?err and x = ?x
        and useCase = "\<lambda>_ _. ((), None)" and Context = "\<lambda>_ :: unit. ()"
        and mr = "\<lambda>_ :: unit. Inr []"
        and xs = "[SuccessCode 201, ALogger (None :: unit Logger option)]"
        and id' = "''id''" and w' = "\<lambda>_. None", OF _ a]
    by (auto simp: q)
  have three: \<open>\<exists>s. Handle (\<lambda>_ :: unit. Inr []) ?R () (\<lambda>_ :: unit. ()) (\<lambda>_ _. ((), None))
        [WithEncoder (Some (XmlEncoder (\<lambda>e v. ([], Some (Opaque ''xml: unsupported type''))))),
         WithLogger (None :: unit Logger option)]
        ''id'' (\<lambda>_. None) () = Some s
     \<and> logs s =
         [Record LevelError ''id'' ''failed to bind request''
            (AnError (Classified (errorsx_New False 400 ''missing field x''))),
          Record LevelError ''id'' ''failed to write error response''
            (AnError (Opaque ''xml: unsupported type''))]\<close>
    using Handle_bind_external [where R = ?R and zero = "()" and r = "()" and req = "()"
        and err = ?err and x = ?x
        and useCase = "\<lambda>_ _. ((), None)" and Context = "\<lambda>_ :: unit. ()"
        and mr = "\<lambda>_ :: unit. Inr []"
        and xs = "[AnEncoder (Some (XmlEncoder (\<lambda>e v. ([], Some (Opaque ''xml: unsupported type''))))),
                  ALogger (None :: unit Logger option)]"
        and id' = "''id''" and w' = "\<lambda>_. None", OF _ a]
    by (auto simp: configured_encoder_def XmlEncoder_def errorsx_New_def)
  from one two three show ?thesis
    by (intro conjI)
qed

text \<open>
  C3, counterexample. \<^verbatim>\<open>Bind\<close> returns an error with two causes, as \<^verbatim>\<open>errors.Join\<close> builds
  it: a classified internal error first and a classified external error (400) second, the
  text being the two messages on two lines. The chain contains the
  external error, but \<^verbatim>\<open>errorsx.As\<close> returns the first \<^verbatim>\<open>*Errorx\<close>, the internal one: the
  status sent is 500 and the body is the generic message.
\<close>

theorem Handle_bind_joined_internal_first:
  \<open>\<exists>s. Classified (errorsx_New False 400 ''bad field'') \<in>
         set (wrap_chain (Multi (''secret'' @ [CHR 0x0A] @ ''bad field'')
           [Classified (errorsx_New True 500 ''secret''),
            Classified (errorsx_New False 400 ''bad field'')]))
     \<and> Handle (\<lambda>_ :: unit. Inr [])
        \<lparr>Bind = (\<lambda>req (r :: unit).
                  (req, Some (Multi (''secret'' @ [CHR 0x0A] @ ''bad field'')
                     [Classified (errorsx_New True 500 ''secret''),
                      Classified (errorsx_New False 400 ''bad field'')]))),
         Validate = (\<lambda>req. None), String = (\<lambda>_. [])\<rparr>
        () (\<lambda>_ :: unit. ()) (\<lambda>_ _. ((), None)) ([] :: (unit, unit) Option list)
        ''id'' (\<lambda>_. None) () = Some s
     \<and> calls s = [WriteHeader 500, Write (''{"message":"Internal Server Error"}'' @ [CHR 0x0A])]
     \<and> status_sent (calls s) = 500
     \<and> status_sent (calls s) \<noteq> 400\<close>
proof -
  let ?err = "Multi (''secret'' @ [CHR 0x0A] @ ''bad field'') [Classified (errorsx_New True 500 ''secret''),
      Classified (errorsx_New False 400 ''bad field'')]"
  let ?mr = "\<lambda>_ :: unit. Inr [] :: error + string"
  let ?R = "\<lparr>Bind = (\<lambda>req (r :: unit). (req, Some ?err)),
         Validate = (\<lambda>req. None), String = (\<lambda>_. [])\<rparr> :: (unit, unit) Request"
  let ?h = "applyOptions ?mr ([] :: (unit, unit) Option list)"
  have h: "encoder ?h = Some (JsonEncoder ?mr)" "logger ?h = Some slogx_New"
    by (simp_all add: applyOptions_def)
  have i: "is_external (As ?err) = Some False"
    by (simp add: is_external_def As_def Errorx_Internal_def errorsx_New_def)
  have q: "appendString ''Internal Server Error'' =
      [CHR 0x22] @ ''Internal Server Error'' @ [CHR 0x22]"
    by (simp add: appendString_def json_escape_def)
  have e: \<open>JsonEncoder ?mr (\<lambda>_. None)
      (AnyDefaultResponse \<lparr>Message = StatusText_InternalServerError\<rparr>) =
      ([''{"message":"Internal Server Error"}'' @ [CHR 0x0A]], None)\<close>
    by (simp add: JsonEncoder_DefaultResponse StatusText_InternalServerError_def q)
  have run: \<open>handlerFunc ?R () (\<lambda>_ :: unit. ()) (\<lambda>_ _. ((), None)) ?h ''id'' (\<lambda>_. None) () =
      Some \<lparr>calls = WriteHeader http_StatusInternalServerError #
              map Write [''{"message":"Internal Server Error"}'' @ [CHR 0x0A]] @
              (case None :: error option of None \<Rightarrow> []
               | Some e \<Rightarrow> http_Error_calls StatusText_InternalServerError http_StatusInternalServerError),
          logs = (case None :: error option of None \<Rightarrow> []
              | Some e \<Rightarrow> [Record LevelError ''id'' ''failed to write error response'' (AnError e)])\<rparr>\<close>
    by (rule handlerFunc_bind_internal [OF h _ i e]) simp
  show ?thesis
    unfolding Handle_def Let_def run
    by (simp add: http_StatusInternalServerError_def)
qed

lemma EncodeRune_fffd: "EncodeRune 0xFFFD = Some [CHR 0xEF, CHR 0xBF, CHR 0xBD]"
proof -
  have "char_of (239 :: nat) = CHR 0xEF"
    using char_of_char [of "CHR 0xEF"] by simp
  moreover have "char_of (191 :: nat) = CHR 0xBF"
    using char_of_char [of "CHR 0xBF"] by simp
  moreover have "char_of (189 :: nat) = CHR 0xBD"
    using char_of_char [of "CHR 0xBD"] by simp
  ultimately show ?thesis
    by (simp add: EncodeRune_def)
qed

lemma getu4_fffd: "getu4 (CHR ''f'') (CHR ''f'') (CHR ''f'') (CHR ''d'') = Some 0xFFFD"
  by (simp add: getu4_def hexval_def)

text \<open>
  A bind error whose text is the one byte \<^verbatim>\<open>0xFF\<close>, which is not valid UTF-8: the JSON
  encoder writes \<^verbatim>\<open>\ufffd\<close> for it, and the body decodes to the message U+FFFD, not to the
  text of the error.
\<close>

lemma Handle_bind_invalid_utf8:
  \<open>\<exists>s. Handle (\<lambda>_ :: unit. Inr [])
        \<lparr>Bind = (\<lambda>req (r :: unit). (req, Some (Classified (errorsx_New False 400 [CHR 0xFF])))),
         Validate = (\<lambda>req. None), String = (\<lambda>_. [])\<rparr>
        () (\<lambda>_ :: unit. ()) (\<lambda>_ _. ((), None)) ([] :: (unit, unit) Option list)
        ''id'' (\<lambda>_. None) () = Some s
     \<and> body_of (calls s) = ''{"message":"'' @ [CHR 0x5C] @ ''ufffd"}'' @ [CHR 0x0A]
     \<and> decode_message (body_of (calls s)) = Some [CHR 0xEF, CHR 0xBF, CHR 0xBD]\<close>
proof -
  let ?err = "Classified (errorsx_New False 400 [CHR 0xFF])"
  let ?x = "\<lparr>code = 400, isInternal = False, message = [CHR 0xFF]\<rparr>"
  let ?mr = "\<lambda>_ :: unit. Inr [] :: error + string"
  let ?R = "\<lparr>Bind = (\<lambda>req (r :: unit). (req, Some ?err)),
         Validate = (\<lambda>req. None), String = (\<lambda>_. [])\<rparr> :: (unit, unit) Request"
  let ?h = "applyOptions ?mr ([] :: (unit, unit) Option list)"
  let ?body = \<open>''{"message":"'' @ [CHR 0x5C] @ ''ufffd"}'' @ [CHR 0x0A]\<close>
  have h: "encoder ?h = Some (JsonEncoder ?mr)" "logger ?h = Some slogx_New"
    by (simp_all add: applyOptions_def)
  have a: "As ?err = (Some ?x, True)"
    by (simp add: As_def errorsx_New_def)
  have t: "error_Error ?err = Some [CHR 0xFF]"
    by (simp add: Errorx_Error_def errorsx_New_def)
  have q: "appendString [CHR 0xFF] = [CHR 0x22, CHR 0x5C] @ ''ufffd'' @ [CHR 0x22]"
    by (simp add: appendString_def rune_size_def)
  have e: "JsonEncoder ?mr (\<lambda>_. None) (AnyDefaultResponse \<lparr>Message = [CHR 0xFF]\<rparr>) =
      ([?body], None)"
    by (simp add: JsonEncoder_DefaultResponse q)
  have run: "handlerFunc ?R () (\<lambda>_ :: unit. ()) (\<lambda>_ _. ((), None)) ?h ''id'' (\<lambda>_. None) () =
      Some \<lparr>calls = WriteHeader (code ?x) # map Write [?body] @
             (case None :: error option of None \<Rightarrow> []
              | Some e \<Rightarrow> http_Error_calls StatusText_InternalServerError http_StatusInternalServerError),
          logs = Record LevelError ''id'' ''failed to bind request'' (AnError (Classified (Some ?x))) #
             (case None :: error option of None \<Rightarrow> []
              | Some e \<Rightarrow> [Record LevelError ''id'' ''failed to write error response'' (AnError e)])\<rparr>"
    by (rule handlerFunc_bind_external [OF h _ a _ t e]) simp_all
  have u: "unquote (CHR 0x5C # ''ufffd'' @ CHR 0x22 # ''}'' @ [CHR 0x0A]) =
      Some ([CHR 0xEF, CHR 0xBF, CHR 0xBD], ''}'' @ [CHR 0x0A])"
    by (simp add: unquote_backslash_u unquote_closing getu4_fffd EncodeRune_fffd prepend_def)
  have d: "decode_message ?body = Some [CHR 0xEF, CHR 0xBF, CHR 0xBD]"
    using u by (simp add: decode_message_def)
  show ?thesis
    unfolding Handle_def Let_def run
    using d by simp
qed

end
